theory Spec2Isabelle
  imports Main "HOL-Library.Word"
begin

unbundle bit_operations_syntax

section \<open>Text and bytes\<close>

text \<open>
  A Python \<open>str\<close> is modelled as a \<open>string\<close> holding the UTF-8 encoding of the
  text, one \<open>char\<close> per byte. On that representation \<open>str.encode("utf-8")\<close> only
  changes the element type, \<open>bytes.decode("utf-8")\<close> is its inverse, and \<open>+\<close> and
  f-string interpolation are list concatenation.
\<close>

type_synonym byte = "8 word"

definition encode_utf8 :: "string \<Rightarrow> byte list" where
  "encode_utf8 t = map of_char t"

section \<open>hashlib.sha256\<close>

text \<open>
  \<open>hashlib.sha256(b).hexdigest()\<close> is SHA-256 as in FIPS 180-4: the message is
  padded to a multiple of 64 bytes, each block of sixteen big-endian 32-bit words is run
  through 64 rounds, and the eight state words are printed as 64 lower-case hex digits.
\<close>

type_synonym w32 = "32 word"

type_synonym hash_state = "w32 \<times> w32 \<times> w32 \<times> w32 \<times> w32 \<times> w32 \<times> w32 \<times> w32"

definition rotr :: "nat \<Rightarrow> w32 \<Rightarrow> w32" where
  "rotr n x = (drop_bit n x) OR (push_bit (32 - n) x)"

definition Ch :: "w32 \<Rightarrow> w32 \<Rightarrow> w32 \<Rightarrow> w32" where
  "Ch x y z = (x AND y) XOR (NOT x AND z)"

definition Maj :: "w32 \<Rightarrow> w32 \<Rightarrow> w32 \<Rightarrow> w32" where
  "Maj x y z = (x AND y) XOR (x AND z) XOR (y AND z)"

definition Sigma0 :: "w32 \<Rightarrow> w32" where
  "Sigma0 x = rotr 2 x XOR rotr 13 x XOR rotr 22 x"

definition Sigma1 :: "w32 \<Rightarrow> w32" where
  "Sigma1 x = rotr 6 x XOR rotr 11 x XOR rotr 25 x"

definition sigma0 :: "w32 \<Rightarrow> w32" where
  "sigma0 x = rotr 7 x XOR rotr 18 x XOR drop_bit 3 x"

definition sigma1 :: "w32 \<Rightarrow> w32" where
  "sigma1 x = rotr 17 x XOR rotr 19 x XOR drop_bit 10 x"

definition K256 :: "w32 list" where
  "K256 =
   [0x428A2F98, 0x71374491, 0xB5C0FBCF, 0xE9B5DBA5, 0x3956C25B, 0x59F111F1, 0x923F82A4, 0xAB1C5ED5,
    0xD807AA98, 0x12835B01, 0x243185BE, 0x550C7DC3, 0x72BE5D74, 0x80DEB1FE, 0x9BDC06A7, 0xC19BF174,
    0xE49B69C1, 0xEFBE4786, 0x0FC19DC6, 0x240CA1CC, 0x2DE92C6F, 0x4A7484AA, 0x5CB0A9DC, 0x76F988DA,
    0x983E5152, 0xA831C66D, 0xB00327C8, 0xBF597FC7, 0xC6E00BF3, 0xD5A79147, 0x06CA6351, 0x14292967,
    0x27B70A85, 0x2E1B2138, 0x4D2C6DFC, 0x53380D13, 0x650A7354, 0x766A0ABB, 0x81C2C92E, 0x92722C85,
    0xA2BFE8A1, 0xA81A664B, 0xC24B8B70, 0xC76C51A3, 0xD192E819, 0xD6990624, 0xF40E3585, 0x106AA070,
    0x19A4C116, 0x1E376C08, 0x2748774C, 0x34B0BCB5, 0x391C0CB3, 0x4ED8AA4A, 0x5B9CCA4F, 0x682E6FF3,
    0x748F82EE, 0x78A5636F, 0x84C87814, 0x8CC70208, 0x90BEFFFA, 0xA4506CEB, 0xBEF9A3F7, 0xC67178F2]"

definition H0 :: hash_state where
  "H0 = (0x6A09E667, 0xBB67AE85, 0x3C6EF372, 0xA54FF53A, 0x510E527F, 0x9B05688C, 0x1F83D9AB, 0x5BE0CD19)"

fun round_step :: "w32 \<Rightarrow> w32 \<Rightarrow> hash_state \<Rightarrow> hash_state" where
  "round_step k w (a, b, c, d, e, f, g, h) =
     (let t1 = h + Sigma1 e + Ch e f g + k + w;
          t2 = Sigma0 a + Maj a b c
      in (t1 + t2, a, b, c, d + t1, e, f, g))"

text \<open>
  The message schedule is kept as a window of the last sixteen words: its head is the
  word of the current round, and the word sixteen rounds ahead is appended.
\<close>

definition next_w :: "w32 list \<Rightarrow> w32" where
  "next_w w = sigma1 (w ! 14) + w ! 9 + sigma0 (w ! 1) + w ! 0"

fun rounds :: "w32 list \<Rightarrow> w32 list \<Rightarrow> hash_state \<Rightarrow> hash_state" where
  "rounds [] w s = s"
| "rounds (k # ks) w s = rounds ks (tl w @ [next_w w]) (round_step k (hd w) s)"

fun add_state :: "hash_state \<Rightarrow> hash_state \<Rightarrow> hash_state" where
  "add_state (a, b, c, d, e, f, g, h) (a', b', c', d', e', f', g', h') =
     (a + a', b + b', c + c', d + d', e + e', f + f', g + g', h + h')"

fun be_words :: "byte list \<Rightarrow> w32 list" where
  "be_words (b0 # b1 # b2 # b3 # bs) =
     (push_bit 24 (ucast b0) OR push_bit 16 (ucast b1) OR push_bit 8 (ucast b2) OR ucast b3)
       # be_words bs"
| "be_words _ = []"

definition compress :: "hash_state \<Rightarrow> byte list \<Rightarrow> hash_state" where
  "compress s block = add_state s (rounds K256 (be_words block) s)"

definition pad :: "byte list \<Rightarrow> byte list" where
  "pad m =
     (let n = length m;
          k = (64 - (n + 9) mod 64) mod 64;
          bits = (of_nat (8 * n) :: 64 word)
      in m @ [0x80] @ replicate k 0
           @ map (\<lambda>i. ucast (drop_bit (8 * i) bits)) [7, 6, 5, 4, 3, 2, 1, 0])"

fun blocks :: "nat \<Rightarrow> byte list \<Rightarrow> hash_state \<Rightarrow> hash_state" where
  "blocks 0 bs s = s"
| "blocks (Suc n) bs s = blocks n (drop 64 bs) (compress s (take 64 bs))"

definition sha256 :: "byte list \<Rightarrow> hash_state" where
  "sha256 m = (let p = pad m in blocks (length p div 64) p H0)"

definition hex_chars :: string where
  "hex_chars = ''0123456789abcdef''"

definition hex_digit :: "nat \<Rightarrow> char" where
  "hex_digit n = hex_chars ! (n mod 16)"

definition hex32 :: "w32 \<Rightarrow> string" where
  "hex32 x =
     map (\<lambda>i. hex_digit (unat (take_bit 4 (drop_bit (4 * i) x)))) [7, 6, 5, 4, 3, 2, 1, 0]"

fun hexdigest :: "hash_state \<Rightarrow> string" where
  "hexdigest (a, b, c, d, e, f, g, h) =
     hex32 a @ hex32 b @ hex32 c @ hex32 d @ hex32 e @ hex32 f @ hex32 g @ hex32 h"

section \<open>Helpers of app.py\<close>

text \<open>\<^verbatim>\<open>def sha256_text(t): return hashlib.sha256(t.encode("utf-8")).hexdigest()\<close>\<close>

definition sha256_text :: "string \<Rightarrow> string" where
  "sha256_text t = hexdigest (sha256 (encode_utf8 t))"

text \<open>
  \<^verbatim>\<open>def cache_key_for_input(text, task, extra=""):
      return f"cache:{task}:{extra}:{sha256_text(text)}"\<close>
\<close>

definition cache_key_for_input :: "string \<Rightarrow> string \<Rightarrow> string \<Rightarrow> string" where
  "cache_key_for_input txt task extra =
     ''cache:'' @ task @ '':'' @ extra @ '':'' @ sha256_text txt"

text \<open>
  Python's \<open>sep.join(parts)\<close>, used to state the shape of a key the way the
  specification words it.
\<close>

fun joined :: "string \<Rightarrow> string list \<Rightarrow> string" where
  "joined sep [] = []"
| "joined sep [x] = x"
| "joined sep (x # y # ys) = x @ sep @ joined sep (y # ys)"

text \<open>
  The cache key as the specification describes it: task identifier, modifier and content
  digest, joined by the delimiter.
\<close>

definition spec_cache_key :: "string \<Rightarrow> string \<Rightarrow> string \<Rightarrow> string" where
  "spec_cache_key task modifier content = joined '':'' [task, modifier, sha256_text content]"

section \<open>Python values, exceptions and string operations\<close>

text \<open>
  The values a JSON payload field can hold. Floats and nested arrays and objects are not
  part of the model's value type.
\<close>

datatype py = PStr string | PInt int | PBool bool | PNone

datatype error =
    ValueError string
  | KeyError string
  | HTTPException nat string
  | RequestValidationError
  | NoSuchJobError string
  | PipelineError string

definition digit_char :: "nat \<Rightarrow> char" where
  "digit_char n = ''0123456789'' ! (n mod 10)"

function str_nat :: "nat \<Rightarrow> string" where
  "str_nat n = (if n < 10 then [digit_char n] else str_nat (n div 10) @ [digit_char n])"
  by pat_completeness auto
termination
  by (relation "measure (\<lambda>n. n)") auto

declare str_nat.simps [simp del]

text \<open>Python's \<open>str(v)\<close>, which an f-string applies to an interpolated value.\<close>

fun py_str :: "py \<Rightarrow> string" where
  "py_str (PStr s) = s"
| "py_str (PInt i) = (if i < 0 then ''-'' @ str_nat (nat (- i)) else str_nat (nat i))"
| "py_str (PBool b) = (if b then ''True'' else ''False'')"
| "py_str PNone = ''None''"

text \<open>
  \<open>str.strip()\<close> removes the white space of \<open>str.isspace\<close> from both ends. In
  UTF-8 those characters are the single bytes 09-0D, 1C-1F and 20, the two-byte sequences
  C2 85 and C2 A0, and the three-byte sequences E1 9A 80, E2 80 80 to E2 80 8A, E2 80 A8,
  E2 80 A9, E2 80 AF, E2 81 9F and E3 80 80.
\<close>

definition ws1 :: "char \<Rightarrow> bool" where
  "ws1 a = (let n = (of_char a :: nat) in (9 \<le> n \<and> n \<le> 13) \<or> (28 \<le> n \<and> n \<le> 32))"

definition ws2 :: "char \<Rightarrow> char \<Rightarrow> bool" where
  "ws2 a b = ((of_char a :: nat) = 0xC2 \<and> ((of_char b :: nat) = 0x85 \<or> (of_char b :: nat) = 0xA0))"

definition ws3 :: "char \<Rightarrow> char \<Rightarrow> char \<Rightarrow> bool" where
  "ws3 a b c =
     (let x = (of_char a :: nat); y = (of_char b :: nat); z = (of_char c :: nat)
      in (x = 0xE1 \<and> y = 0x9A \<and> z = 0x80)
       \<or> (x = 0xE2 \<and> y = 0x80 \<and> ((0x80 \<le> z \<and> z \<le> 0x8A) \<or> z = 0xA8 \<or> z = 0xA9 \<or> z = 0xAF))
       \<or> (x = 0xE2 \<and> y = 0x81 \<and> z = 0x9F)
       \<or> (x = 0xE3 \<and> y = 0x80 \<and> z = 0x80))"

fun lstrip :: "string \<Rightarrow> string" where
  "lstrip (a # b # c # s) =
     (if ws1 a then lstrip (b # c # s)
      else if ws2 a b then lstrip (c # s)
      else if ws3 a b c then lstrip s
      else a # b # c # s)"
| "lstrip [a, b] = (if ws1 a then lstrip [b] else if ws2 a b then [] else [a, b])"
| "lstrip [a] = (if ws1 a then [] else [a])"
| "lstrip [] = []"

text \<open>The same from the right end, on the reversed string.\<close>

fun rstrip_rev :: "string \<Rightarrow> string" where
  "rstrip_rev (a # b # c # s) =
     (if ws1 a then rstrip_rev (b # c # s)
      else if ws2 b a then rstrip_rev (c # s)
      else if ws3 c b a then rstrip_rev s
      else a # b # c # s)"
| "rstrip_rev [a, b] = (if ws1 a then rstrip_rev [b] else if ws2 b a then [] else [a, b])"
| "rstrip_rev [a] = (if ws1 a then [] else [a])"
| "rstrip_rev [] = []"

definition strip :: "string \<Rightarrow> string" where
  "strip s = rev (rstrip_rev (rev (lstrip s)))"

section \<open>The world the handlers run in\<close>

text \<open>
  A Hugging Face pipeline object is identified by the task and model it was built for. A
  call of it is recorded with its positional and keyword arguments.
\<close>

datatype pipe = Pipeline string string

datatype pipe_call = PipeCall pipe "py list" "(string \<times> py) list"

datatype redis_cmd = GET string | SETEX string int string

text \<open>
  An RQ job: the arguments of the deferred call \<open>process_genai_task(task_type, payload)\<close>,
  the status \<open>get_status()\<close> reports and the return value once there is one.
\<close>

record rq_job =
  job_task :: string
  job_payload :: "string \<rightharpoonup> py"
  job_state :: string
  job_return :: "string option"

text \<open>
  The state is passed explicitly. \<open>store\<close> holds the string keys of the Redis database,
  each with its value and the instant at which it expires; \<open>clock\<close> is the current time
  in seconds; \<open>pipelines\<close> is the module's \<open>_pipelines\<close> dictionary; \<open>rq_jobs\<close> and
  \<open>rq_queue\<close> are the jobs RQ keeps and the queue \<open>genai\<close>; \<open>uuid_count\<close> counts the
  identifiers drawn so far. \<open>redis_log\<close> and \<open>pipe_log\<close> record the commands sent to
  the cache and the pipeline calls made, in order, so that a property can speak of the
  accesses a handler performs.
\<close>

record world =
  store :: "string \<rightharpoonup> string \<times> int"
  clock :: int
  redis_log :: "redis_cmd list"
  pipelines :: "string \<rightharpoonup> pipe"
  pipe_log :: "pipe_call list"
  rq_jobs :: "string \<rightharpoonup> rq_job"
  rq_queue :: "string list"
  uuid_count :: nat

text \<open>
  What the program takes from outside: the \<open>CACHE_TTL\<close> setting; the outcome of a
  pipeline call (the text it extracts from the model's output, or the exception raised),
  which may depend on the calls made before; and the conversions the request validation
  applies to a JSON value for a field declared \<open>str\<close> or \<open>int\<close>
  (\<open>None\<close> when it refuses the value). Constructing a pipeline is taken to succeed.
\<close>

record env =
  CACHE_TTL :: int
  run_pipeline :: "pipe_call list \<Rightarrow> pipe_call \<Rightarrow> error + string"
  as_str :: "py \<Rightarrow> string option"
  as_int :: "py \<Rightarrow> int option"

subsection \<open>Result Cache\<close>

text \<open>
  Modelled from the spec: the Result Cache is a Redis server, which is not part of the
  repository. \<open>get(key)\<close> returns absent when the key is unset or expired;
  \<open>set(key, value, ttl)\<close> stores the value, schedules its expiry \<open>ttl\<close> seconds from
  now and overwrites any prior value. The handlers reach it as \<open>redis_conn.get(key)\<close>
  and \<open>redis_conn.setex(key, ttl, value)\<close>. redis-py encodes a \<open>str\<close> value as UTF-8
  on the way in and the handlers decode what they read, so the store keeps the text.
\<close>

definition cache_lookup :: "world \<Rightarrow> string \<Rightarrow> string option" where
  "cache_lookup w k =
     (case store w k of
        None \<Rightarrow> None
      | Some (v, expires) \<Rightarrow> if clock w < expires then Some v else None)"

definition redis_get :: "world \<Rightarrow> string \<Rightarrow> string option \<times> world" where
  "redis_get w k = (cache_lookup w k, w\<lparr>redis_log := redis_log w @ [GET k]\<rparr>)"

definition redis_setex :: "world \<Rightarrow> string \<Rightarrow> int \<Rightarrow> string \<Rightarrow> world" where
  "redis_setex w k ttl v =
     w\<lparr>store := (store w)(k \<mapsto> (v, clock w + ttl)),
       redis_log := redis_log w @ [SETEX k ttl v]\<rparr>"

text \<open>Time passing between two requests.\<close>

definition advance :: "nat \<Rightarrow> world \<Rightarrow> world" where
  "advance d w = w\<lparr>clock := clock w + int d\<rparr>"

subsection \<open>Pipelines\<close>

text \<open>
  \<^verbatim>\<open>def get_pipeline(task):
      if task not in _pipelines:
          if task == "summarization": _pipelines[task] = pipeline("summarization", model=...)
          elif task == "qa": _pipelines[task] = pipeline("question-answering", model=...)
          elif task == "rewrite": _pipelines[task] = pipeline("text2text-generation", model=...)
          else: raise ValueError(f"Unsupported task: {task}")
      return _pipelines[task]\<close>
\<close>

definition load_pipeline :: "world \<Rightarrow> string \<Rightarrow> pipe \<Rightarrow> (error + pipe) \<times> world" where
  "load_pipeline w task p = (Inr p, w\<lparr>pipelines := (pipelines w)(task \<mapsto> p)\<rparr>)"

definition get_pipeline :: "world \<Rightarrow> string \<Rightarrow> (error + pipe) \<times> world" where
  "get_pipeline w task =
     (case pipelines w task of
        Some p \<Rightarrow> (Inr p, w)
      | None \<Rightarrow>
          if task = ''summarization'' then
            load_pipeline w task (Pipeline ''summarization'' ''sshleifer/distilbart-cnn-12-6'')
          else if task = ''qa'' then
            load_pipeline w task
              (Pipeline ''question-answering'' ''distilbert-base-cased-distilled-squad'')
          else if task = ''rewrite'' then
            load_pipeline w task (Pipeline ''text2text-generation'' ''google/flan-t5-small'')
          else (Inl (ValueError (''Unsupported task: '' @ task)), w))"

text \<open>
  A call \<open>pipe(*args, **kwargs)\<close>, followed by the extraction of the text from what it
  returns: the call is logged and its outcome is the environment's.
\<close>

definition call_pipeline ::
  "env \<Rightarrow> world \<Rightarrow> pipe \<Rightarrow> py list \<Rightarrow> (string \<times> py) list \<Rightarrow> (error + string) \<times> world" where
  "call_pipeline ev w p args kwargs =
     (let c = PipeCall p args kwargs
      in (run_pipeline ev (pipe_log w) c, w\<lparr>pipe_log := pipe_log w @ [c]\<rparr>))"

subsection \<open>Core functions\<close>

text \<open>
  \<^verbatim>\<open>def summarize_text(text, max_length, min_length):
      pipe = get_pipeline("summarization")
      res = pipe(text, max_length=max_length, min_length=min_length, truncation=True)
      return res[0]["summary_text"].strip()\<close>
\<close>

definition summarize_text :: "env \<Rightarrow> world \<Rightarrow> py \<Rightarrow> py \<Rightarrow> py \<Rightarrow> (error + string) \<times> world" where
  "summarize_text ev w txt max_length min_length =
     (case get_pipeline w ''summarization'' of
        (Inl e, w1) \<Rightarrow> (Inl e, w1)
      | (Inr p, w1) \<Rightarrow>
          (case call_pipeline ev w1 p [txt]
                  [(''max_length'', max_length), (''min_length'', min_length),
                   (''truncation'', PBool True)] of
             (Inl e, w2) \<Rightarrow> (Inl e, w2)
           | (Inr s, w2) \<Rightarrow> (Inr (strip s), w2)))"

text \<open>
  \<^verbatim>\<open>def answer_question(context, question):
      pipe = get_pipeline("qa")
      res = pipe(question=question, context=context)
      return res["answer"]\<close>
\<close>

definition answer_question :: "env \<Rightarrow> world \<Rightarrow> py \<Rightarrow> py \<Rightarrow> (error + string) \<times> world" where
  "answer_question ev w context question =
     (case get_pipeline w ''qa'' of
        (Inl e, w1) \<Rightarrow> (Inl e, w1)
      | (Inr p, w1) \<Rightarrow>
          call_pipeline ev w1 p [] [(''question'', question), (''context'', context)])"

text \<open>
  \<^verbatim>\<open>def rewrite_tone(text, tone):
      pipe = get_pipeline("rewrite")
      prompt = f"Rewrite the following text in a {tone} tone:\n{text}"
      res = pipe(prompt, max_length=200)
      return res[0]["generated_text"].strip()\<close>
\<close>

definition rewrite_tone :: "env \<Rightarrow> world \<Rightarrow> py \<Rightarrow> py \<Rightarrow> (error + string) \<times> world" where
  "rewrite_tone ev w txt tone =
     (case get_pipeline w ''rewrite'' of
        (Inl e, w1) \<Rightarrow> (Inl e, w1)
      | (Inr p, w1) \<Rightarrow>
          (let prompt = ''Rewrite the following text in a '' @ py_str tone @ '' tone:''
                          @ [CHR 0x0A] @ py_str txt
           in case call_pipeline ev w1 p [PStr prompt] [(''max_length'', PInt 200)] of
                (Inl e, w2) \<Rightarrow> (Inl e, w2)
              | (Inr s, w2) \<Rightarrow> (Inr (strip s), w2)))"

section \<open>Synchronous endpoints\<close>

record SummarizeRequest =
  sr_text :: string
  sr_max_length :: "int option"
  sr_min_length :: "int option"

record QARequest =
  qa_context :: string
  qa_question :: string

datatype tone = formal | informal

fun tone_str :: "tone \<Rightarrow> string" where
  "tone_str formal = ''formal''"
| "tone_str informal = ''informal''"

record RewriteRequest =
  rw_text :: string
  rw_tone :: tone

text \<open>The body \<open>{"task": ..., "cached": ..., "result": ...}\<close> of a response.\<close>

record response =
  resp_task :: string
  resp_cached :: bool
  resp_result :: string

fun py_opt_int :: "int option \<Rightarrow> py" where
  "py_opt_int None = PNone"
| "py_opt_int (Some n) = PInt n"

text \<open>
  Python's truth value of what \<open>redis_conn.get\<close> returns: \<open>None\<close> and the empty
  \<open>bytes\<close> are false.
\<close>

fun truthy :: "string option \<Rightarrow> bool" where
  "truthy None = False"
| "truthy (Some v) = (v \<noteq> [])"

text \<open>
  \<^verbatim>\<open>def summarize(req):
      key = cache_key_for_input(req.text, "summarize")
      cached = redis_conn.get(key)
      if cached:
          return JSONResponse({"task": "summarization", "cached": True,
                               "result": cached.decode("utf-8")})
      result = summarize_text(req.text, req.max_length, req.min_length)
      redis_conn.setex(key, CACHE_TTL, result)
      return {"task": "summarization", "cached": False, "result": result}\<close>
\<close>

definition summarize :: "env \<Rightarrow> world \<Rightarrow> SummarizeRequest \<Rightarrow> (error + response) \<times> world" where
  "summarize ev w req =
     (let key = cache_key_for_input (sr_text req) ''summarize'' [];
          (cached, w1) = redis_get w key
      in if truthy cached then
           (Inr \<lparr>resp_task = ''summarization'', resp_cached = True,
                 resp_result = (case cached of Some v \<Rightarrow> v | None \<Rightarrow> [])\<rparr>, w1)
         else
           (case summarize_text ev w1 (PStr (sr_text req)) (py_opt_int (sr_max_length req))
                   (py_opt_int (sr_min_length req)) of
              (Inl e, w2) \<Rightarrow> (Inl e, w2)
            | (Inr result, w2) \<Rightarrow>
                (Inr \<lparr>resp_task = ''summarization'', resp_cached = False, resp_result = result\<rparr>,
                 redis_setex w2 key (CACHE_TTL ev) result)))"

text \<open>
  \<^verbatim>\<open>def qa(req):
      combined_text = req.context + req.question
      key = cache_key_for_input(combined_text, "qa")
      cached = redis_conn.get(key)
      if cached:
          return JSONResponse({"task": "qa", "cached": True, "result": cached.decode("utf-8")})
      result = answer_question(req.context, req.question)
      redis_conn.setex(key, CACHE_TTL, result)
      return {"task": "qa", "cached": False, "result": result}\<close>
\<close>

definition qa :: "env \<Rightarrow> world \<Rightarrow> QARequest \<Rightarrow> (error + response) \<times> world" where
  "qa ev w req =
     (let combined_text = qa_context req @ qa_question req;
          key = cache_key_for_input combined_text ''qa'' [];
          (cached, w1) = redis_get w key
      in if truthy cached then
           (Inr \<lparr>resp_task = ''qa'', resp_cached = True,
                 resp_result = (case cached of Some v \<Rightarrow> v | None \<Rightarrow> [])\<rparr>, w1)
         else
           (case answer_question ev w1 (PStr (qa_context req)) (PStr (qa_question req)) of
              (Inl e, w2) \<Rightarrow> (Inl e, w2)
            | (Inr result, w2) \<Rightarrow>
                (Inr \<lparr>resp_task = ''qa'', resp_cached = False, resp_result = result\<rparr>,
                 redis_setex w2 key (CACHE_TTL ev) result)))"

text \<open>
  \<^verbatim>\<open>def rewrite(req):
      key = cache_key_for_input(req.text, "rewrite", req.tone)
      cached = redis_conn.get(key)
      if cached:
          return JSONResponse({"task": "rewrite", "cached": True,
                               "result": cached.decode("utf-8")})
      result = rewrite_tone(req.text, req.tone)
      redis_conn.setex(key, CACHE_TTL, result)
      return {"task": "rewrite", "cached": False, "result": result}\<close>
\<close>

definition rewrite :: "env \<Rightarrow> world \<Rightarrow> RewriteRequest \<Rightarrow> (error + response) \<times> world" where
  "rewrite ev w req =
     (let key = cache_key_for_input (rw_text req) ''rewrite'' (tone_str (rw_tone req));
          (cached, w1) = redis_get w key
      in if truthy cached then
           (Inr \<lparr>resp_task = ''rewrite'', resp_cached = True,
                 resp_result = (case cached of Some v \<Rightarrow> v | None \<Rightarrow> [])\<rparr>, w1)
         else
           (case rewrite_tone ev w1 (PStr (rw_text req)) (PStr (tone_str (rw_tone req))) of
              (Inl e, w2) \<Rightarrow> (Inl e, w2)
            | (Inr result, w2) \<Rightarrow>
                (Inr \<lparr>resp_task = ''rewrite'', resp_cached = False, resp_result = result\<rparr>,
                 redis_setex w2 key (CACHE_TTL ev) result)))"

section \<open>Asynchronous jobs\<close>

text \<open>\<open>payload[k]\<close> on a Python dictionary raises \<open>KeyError\<close> for a missing key.\<close>

definition getitem :: "(string \<rightharpoonup> py) \<Rightarrow> string \<Rightarrow> error + py" where
  "getitem d k = (case d k of None \<Rightarrow> Inl (KeyError k) | Some v \<Rightarrow> Inr v)"

text \<open>
  \<^verbatim>\<open>def process_genai_task(task_type, payload):
      if task_type == "summarize":
          return summarize_text(payload["text"], payload["max_length"], payload["min_length"])
      elif task_type == "qa":
          return answer_question(payload["context"], payload["question"])
      elif task_type == "rewrite":
          return rewrite_tone(payload["text"], payload["tone"])
      else:
          raise ValueError(f"Unknown task type: {task_type}")\<close>
  The arguments of a call are evaluated from left to right, before the call.
\<close>

definition process_genai_task ::
  "env \<Rightarrow> world \<Rightarrow> string \<Rightarrow> (string \<rightharpoonup> py) \<Rightarrow> (error + string) \<times> world" where
  "process_genai_task ev w task_type payload =
     (if task_type = ''summarize'' then
        (case getitem payload ''text'' of
           Inl e \<Rightarrow> (Inl e, w)
         | Inr t \<Rightarrow>
             (case getitem payload ''max_length'' of
                Inl e \<Rightarrow> (Inl e, w)
              | Inr mx \<Rightarrow>
                  (case getitem payload ''min_length'' of
                     Inl e \<Rightarrow> (Inl e, w)
                   | Inr mn \<Rightarrow> summarize_text ev w t mx mn)))
      else if task_type = ''qa'' then
        (case getitem payload ''context'' of
           Inl e \<Rightarrow> (Inl e, w)
         | Inr c \<Rightarrow>
             (case getitem payload ''question'' of
                Inl e \<Rightarrow> (Inl e, w)
              | Inr q \<Rightarrow> answer_question ev w c q))
      else if task_type = ''rewrite'' then
        (case getitem payload ''text'' of
           Inl e \<Rightarrow> (Inl e, w)
         | Inr t \<Rightarrow>
             (case getitem payload ''tone'' of
                Inl e \<Rightarrow> (Inl e, w)
              | Inr tn \<Rightarrow> rewrite_tone ev w t tn))
      else (Inl (ValueError (''Unknown task type: '' @ task_type)), w))"

subsection \<open>Job Queue\<close>

text \<open>
  Modelled from the spec: the Job Queue is RQ, which is not part of the repository.
  \<open>queue.enqueue(f, task_type, payload)\<close> generates a unique job identifier, stores a
  deferred execution record binding the arguments to it, with status queued, appends it
  to the queue and returns without executing it. \<open>Job.fetch(job_id)\<close> raises when
  the store has no record of the job; \<open>get_status()\<close> and \<open>result\<close> read the
  record. The identifier is opaque; the model issues the decimal numeral of the number of
  identifiers issued before, and \<open>issued\<close> lists the identifiers issued so far.
\<close>

definition issued :: "world \<Rightarrow> string list" where
  "issued w = map str_nat [0 ..< uuid_count w]"

definition enqueue :: "world \<Rightarrow> string \<Rightarrow> (string \<rightharpoonup> py) \<Rightarrow> string \<times> world" where
  "enqueue w task_type payload =
     (let jid = str_nat (uuid_count w);
          job = \<lparr>job_task = task_type, job_payload = payload, job_state = ''queued'',
                 job_return = None\<rparr>
      in (jid, w\<lparr>rq_jobs := (rq_jobs w)(jid \<mapsto> job),
               rq_queue := rq_queue w @ [jid],
               uuid_count := Suc (uuid_count w)\<rparr>))"

definition Job_fetch :: "world \<Rightarrow> string \<Rightarrow> error + rq_job" where
  "Job_fetch w job_id =
     (case rq_jobs w job_id of None \<Rightarrow> Inl (NoSuchJobError job_id) | Some j \<Rightarrow> Inr j)"

definition get_status :: "rq_job \<Rightarrow> string" where
  "get_status j = job_state j"

subsection \<open>Endpoints\<close>

record SubmitResponse =
  job_id :: string
  status :: string

text \<open>
  \<^verbatim>\<open>def submit_job(task_type, payload):
      job = queue.enqueue(process_genai_task, task_type, payload)
      redis_conn.setex(f"job:{job.id}:status", 3600, "queued")
      return SubmitResponse(job_id=str(job.id), status="queued")\<close>
\<close>

definition submit_job :: "world \<Rightarrow> string \<Rightarrow> (string \<rightharpoonup> py) \<Rightarrow> SubmitResponse \<times> world" where
  "submit_job w task_type payload =
     (let (jid, w1) = enqueue w task_type payload;
          w2 = redis_setex w1 (''job:'' @ jid @ '':status'') 3600 ''queued''
      in (\<lparr>job_id = jid, status = ''queued''\<rparr>, w2))"

text \<open>
  The dictionaries \<open>{"job_id": ..., "status": ...}\<close> and
  \<open>{"job_id": ..., "status": ..., "result": ...}\<close> the two read endpoints return.
\<close>

record job_view =
  jv_job_id :: string
  jv_status :: string
  jv_result :: "string option"

text \<open>
  \<^verbatim>\<open>def job_status(job_id):
      try:
          job = Job.fetch(job_id, connection=redis_conn)
      except Exception:
          return {"job_id": job_id, "status": "unknown"}
      return {"job_id": job_id, "status": job.get_status()}\<close>
\<close>

definition job_status :: "world \<Rightarrow> string \<Rightarrow> error + job_view" where
  "job_status w jid =
     (case Job_fetch w jid of
        Inl e \<Rightarrow> Inr \<lparr>jv_job_id = jid, jv_status = ''unknown'', jv_result = None\<rparr>
      | Inr job \<Rightarrow> Inr \<lparr>jv_job_id = jid, jv_status = get_status job, jv_result = None\<rparr>)"

text \<open>
  \<^verbatim>\<open>def job_result(job_id):
      try:
          job = Job.fetch(job_id, connection=redis_conn)
      except Exception:
          raise HTTPException(status_code=404, detail="Job not found")
      if job.get_status() == "finished":
          return {"job_id": job_id, "status": "finished", "result": job.result}
      return {"job_id": job_id, "status": job.get_status()}\<close>
\<close>

definition job_result :: "world \<Rightarrow> string \<Rightarrow> error + job_view" where
  "job_result w jid =
     (case Job_fetch w jid of
        Inl e \<Rightarrow> Inl (HTTPException 404 ''Job not found'')
      | Inr job \<Rightarrow>
          if get_status job = ''finished'' then
            Inr \<lparr>jv_job_id = jid, jv_status = ''finished'', jv_result = job_return job\<rparr>
          else Inr \<lparr>jv_job_id = jid, jv_status = get_status job, jv_result = None\<rparr>)"

section \<open>The request boundary\<close>












section \<open>A concrete environment and an empty world\<close>

text \<open>
  The conversions of the example environment: an \<open>int\<close> field takes an integer, a
  boolean (as 1 or 0) and a string of decimal digits with an optional minus sign; a
  \<open>str\<close> field takes a string.
\<close>

definition digit_of :: "char \<Rightarrow> nat option" where
  "digit_of c =
     (let n = (of_char c :: nat) in if 48 \<le> n \<and> n \<le> 57 then Some (n - 48) else None)"

fun digits_value :: "nat \<Rightarrow> string \<Rightarrow> nat option" where
  "digits_value acc [] = Some acc"
| "digits_value acc (c # cs) =
     (case digit_of c of None \<Rightarrow> None | Some d \<Rightarrow> digits_value (10 * acc + d) cs)"

definition int_of_string :: "string \<Rightarrow> int option" where
  "int_of_string s =
     (case s of
        [] \<Rightarrow> None
      | c # cs \<Rightarrow>
          if c = CHR ''-'' then
            (if cs = [] then None else map_option (\<lambda>n. - int n) (digits_value 0 cs))
          else map_option int (digits_value 0 s))"

definition lax_int :: "py \<Rightarrow> int option" where
  "lax_int v =
     (case v of
        PInt n \<Rightarrow> Some n
      | PBool b \<Rightarrow> Some (if b then 1 else 0)
      | PStr s \<Rightarrow> int_of_string s
      | PNone \<Rightarrow> None)"

definition lax_str :: "py \<Rightarrow> string option" where
  "lax_str v = (case v of PStr s \<Rightarrow> Some s | _ \<Rightarrow> None)"

definition example_env :: "(error + string) \<Rightarrow> env" where
  "example_env outcome =
     \<lparr>CACHE_TTL = 86400,
      run_pipeline = (\<lambda>history c. outcome),
      as_str = lax_str,
      as_int = lax_int\<rparr>"

definition empty_world :: world where
  "empty_world =
     \<lparr>store = Map.empty, clock = 0, redis_log = [], pipelines = Map.empty, pipe_log = [],
      rq_jobs = Map.empty, rq_queue = [], uuid_count = 0\<rparr>"

text \<open>
  A world whose cache holds a live, non-empty value under the key of one request per
  endpoint, and one whose cache holds the empty string under the same keys.
\<close>

definition warm_world :: world where
  "warm_world =
     empty_world\<lparr>store :=
       [cache_key_for_input ''x'' ''summarize'' [] \<mapsto> (''s'', 60),
        cache_key_for_input (''c'' @ ''q'') ''qa'' [] \<mapsto> (''a'', 60),
        cache_key_for_input ''x'' ''rewrite'' ''formal'' \<mapsto> (''r'', 60)]\<rparr>"

definition blank_world :: world where
  "blank_world =
     empty_world\<lparr>store :=
       [cache_key_for_input ''x'' ''summarize'' [] \<mapsto> ([], 60),
        cache_key_for_input (''c'' @ ''q'') ''qa'' [] \<mapsto> ([], 60),
        cache_key_for_input ''x'' ''rewrite'' ''formal'' \<mapsto> ([], 60)]\<rparr>"

section \<open>Jobs and identifiers\<close>

text \<open>
  Every job RQ keeps was given one of the identifiers issued so far. It holds of the
  empty world and every operation keeps it true.
\<close>

definition ids_issued :: "world \<Rightarrow> bool" where
  "ids_issued w = (\<forall>j \<in> dom (rq_jobs w). j \<in> set (issued w))"

section \<open>Facts about the fingerprint and the key\<close>

lemma length_hex32: "length (hex32 x) = 8"
  by (simp add: hex32_def)

lemma hex_digit_in: "hex_digit n \<in> set hex_chars"
proof -
  have "n mod 16 < length hex_chars" by (simp add: hex_chars_def)
  then show ?thesis unfolding hex_digit_def by (rule nth_mem)
qed

lemma set_hex32: "set (hex32 x) \<subseteq> set hex_chars"
  by (auto simp: hex32_def hex_digit_in)

lemma length_hexdigest: "length (hexdigest s) = 64"
  by (cases s rule: hexdigest.cases) (simp add: length_hex32)

lemma set_hexdigest: "set (hexdigest s) \<subseteq> set hex_chars"
  by (cases s rule: hexdigest.cases) (simp add: set_hex32)

lemma length_sha256_text: "length (sha256_text t) = 64"
  by (simp add: sha256_text_def length_hexdigest)

lemma set_sha256_text: "set (sha256_text t) \<subseteq> set hex_chars"
  by (simp add: sha256_text_def set_hexdigest)

lemma colon_not_hex: "CHR '':'' \<notin> set hex_chars"
  by (simp add: hex_chars_def)

lemma split_at_delimiter:
  assumes "x @ c # r = x' @ c # r'" and "c \<notin> set x" and "c \<notin> set x'"
  shows "x = x' \<and> r = r'"
  using assms
proof (induction x arbitrary: x')
  case Nil
  then show ?case by (cases x') auto
next
  case (Cons a x)
  then show ?case by (cases x') auto
qed

lemma cache_key_components:
  assumes "CHR '':'' \<notin> set task" and "CHR '':'' \<notin> set task'"
    and "CHR '':'' \<notin> set extra" and "CHR '':'' \<notin> set extra'"
  shows "cache_key_for_input t task extra = cache_key_for_input t' task' extra'
    \<longleftrightarrow> task = task' \<and> extra = extra' \<and> sha256_text t = sha256_text t'"
proof
  assume eq: "cache_key_for_input t task extra = cache_key_for_input t' task' extra'"
  then have e1: "task @ CHR '':'' # (extra @ '':'' @ sha256_text t)
      = task' @ CHR '':'' # (extra' @ '':'' @ sha256_text t')"
    by (simp add: cache_key_for_input_def)
  from split_at_delimiter [OF e1 assms(1) assms(2)]
  have t: "task = task'" and e2: "extra @ CHR '':'' # sha256_text t = extra' @ CHR '':'' # sha256_text t'"
    by simp_all
  from split_at_delimiter [OF e2 assms(3) assms(4)]
  show "task = task' \<and> extra = extra' \<and> sha256_text t = sha256_text t'"
    using t by simp
next
  assume "task = task' \<and> extra = extra' \<and> sha256_text t = sha256_text t'"
  then show "cache_key_for_input t task extra = cache_key_for_input t' task' extra'"
    by (simp add: cache_key_for_input_def)
qed

lemma cache_key_same_task:
  "cache_key_for_input c1 task extra = cache_key_for_input c2 task extra
     \<longleftrightarrow> sha256_text c1 = sha256_text c2"
  by (simp add: cache_key_for_input_def)

lemma finite_range_sha256_text: "finite (range sha256_text)"
proof -
  have "range sha256_text \<subseteq> range hexdigest"
    by (auto simp: sha256_text_def)
  moreover have "finite (range hexdigest)"
    by simp
  ultimately show ?thesis by (rule finite_subset)
qed

lemma sha256_text_not_inj: "\<not> inj sha256_text"
proof
  assume "inj sha256_text"
  with finite_range_sha256_text have "finite (UNIV :: string set)"
    by (rule finite_imageD)
  then show False by (simp add: infinite_UNIV_listI)
qed

text \<open>Two test vectors of FIPS 180-4, computed by the model.\<close>

lemma sha256_text_empty:
  "sha256_text [] = ''e3b0c44298fc1c149afbf4c8996fb92427ae41e4649b934ca495991b7852b855''"
  by code_simp

lemma sha256_text_abc:
  "sha256_text ''abc'' = ''ba7816bf8f01cfea414140de5dae2223b00361a396177a9cb410ff61f20015ad''"
  by code_simp

section \<open>Frame lemmas for the core functions and handlers\<close>

lemma get_pipeline_fields:
  "store (snd (get_pipeline w task)) = store w"
  "clock (snd (get_pipeline w task)) = clock w"
  "redis_log (snd (get_pipeline w task)) = redis_log w"
  "pipe_log (snd (get_pipeline w task)) = pipe_log w"
  "rq_jobs (snd (get_pipeline w task)) = rq_jobs w"
  "rq_queue (snd (get_pipeline w task)) = rq_queue w"
  "uuid_count (snd (get_pipeline w task)) = uuid_count w"
  by (simp_all add: get_pipeline_def load_pipeline_def split: option.splits)

lemma get_pipeline_known:
  assumes "task = ''summarization'' \<or> task = ''qa'' \<or> task = ''rewrite''"
  shows "\<exists>p. fst (get_pipeline w task) = Inr p"
  using assms by (auto simp: get_pipeline_def load_pipeline_def split: option.splits)

lemma get_pipeline_redis_log:
  "get_pipeline (w\<lparr>redis_log := l\<rparr>) task =
     (fst (get_pipeline w task), (snd (get_pipeline w task))\<lparr>redis_log := l\<rparr>)"
  by (simp add: get_pipeline_def load_pipeline_def split: option.splits)

lemma call_pipeline_redis_log:
  "call_pipeline ev (w\<lparr>redis_log := l\<rparr>) p args kwargs =
     (fst (call_pipeline ev w p args kwargs), (snd (call_pipeline ev w p args kwargs))\<lparr>redis_log := l\<rparr>)"
  by (simp add: call_pipeline_def Let_def)

lemma call_pipeline_fields:
  "store (snd (call_pipeline ev w p a k)) = store w"
  "clock (snd (call_pipeline ev w p a k)) = clock w"
  "redis_log (snd (call_pipeline ev w p a k)) = redis_log w"
  "pipe_log (snd (call_pipeline ev w p a k)) = pipe_log w @ [PipeCall p a k]"
  "rq_jobs (snd (call_pipeline ev w p a k)) = rq_jobs w"
  "rq_queue (snd (call_pipeline ev w p a k)) = rq_queue w"
  "uuid_count (snd (call_pipeline ev w p a k)) = uuid_count w"
  by (simp_all add: call_pipeline_def Let_def)

lemma summarize_text_redis_log:
  "summarize_text ev (w\<lparr>redis_log := l\<rparr>) t mx mn =
     (fst (summarize_text ev w t mx mn), (snd (summarize_text ev w t mx mn))\<lparr>redis_log := l\<rparr>)"
  by (simp add: summarize_text_def get_pipeline_redis_log call_pipeline_redis_log
      split: prod.splits sum.splits)

lemma summarize_text_fields:
  "store (snd (summarize_text ev w t mx mn)) = store w"
  "clock (snd (summarize_text ev w t mx mn)) = clock w"
  "redis_log (snd (summarize_text ev w t mx mn)) = redis_log w"
  "rq_jobs (snd (summarize_text ev w t mx mn)) = rq_jobs w"
  "rq_queue (snd (summarize_text ev w t mx mn)) = rq_queue w"
  "uuid_count (snd (summarize_text ev w t mx mn)) = uuid_count w"
  using get_pipeline_fields [of w "''summarization''"]
  by (auto simp: summarize_text_def call_pipeline_def Let_def split: prod.splits sum.splits)

lemma summarize_text_one_call:
  "\<exists>c. pipe_log (snd (summarize_text ev w t mx mn)) = pipe_log w @ [c]"
  using get_pipeline_fields(4) [of w "''summarization''"] get_pipeline_known [of "''summarization''" w]
  by (auto simp: summarize_text_def call_pipeline_def Let_def split: prod.splits sum.splits)


lemma answer_question_redis_log:
  "answer_question ev (w\<lparr>redis_log := l\<rparr>) c q =
     (fst (answer_question ev w c q), (snd (answer_question ev w c q))\<lparr>redis_log := l\<rparr>)"
  by (simp add: answer_question_def get_pipeline_redis_log call_pipeline_redis_log
      split: prod.splits sum.splits)

lemma answer_question_fields:
  "store (snd (answer_question ev w c q)) = store w"
  "clock (snd (answer_question ev w c q)) = clock w"
  "redis_log (snd (answer_question ev w c q)) = redis_log w"
  "rq_jobs (snd (answer_question ev w c q)) = rq_jobs w"
  "rq_queue (snd (answer_question ev w c q)) = rq_queue w"
  "uuid_count (snd (answer_question ev w c q)) = uuid_count w"
  using get_pipeline_fields [of w "''qa''"]
  by (auto simp: answer_question_def call_pipeline_def Let_def split: prod.splits sum.splits)

lemma answer_question_one_call:
  "\<exists>k. pipe_log (snd (answer_question ev w c q)) = pipe_log w @ [k]"
  using get_pipeline_fields(4) [of w "''qa''"] get_pipeline_known [of "''qa''" w]
  by (auto simp: answer_question_def call_pipeline_def Let_def split: prod.splits sum.splits)

lemma rewrite_tone_redis_log:
  "rewrite_tone ev (w\<lparr>redis_log := l\<rparr>) t tn =
     (fst (rewrite_tone ev w t tn), (snd (rewrite_tone ev w t tn))\<lparr>redis_log := l\<rparr>)"
  by (simp add: rewrite_tone_def get_pipeline_redis_log call_pipeline_redis_log Let_def
      split: prod.splits sum.splits)

lemma rewrite_tone_fields:
  "store (snd (rewrite_tone ev w t tn)) = store w"
  "clock (snd (rewrite_tone ev w t tn)) = clock w"
  "redis_log (snd (rewrite_tone ev w t tn)) = redis_log w"
  "rq_jobs (snd (rewrite_tone ev w t tn)) = rq_jobs w"
  "rq_queue (snd (rewrite_tone ev w t tn)) = rq_queue w"
  "uuid_count (snd (rewrite_tone ev w t tn)) = uuid_count w"
  using get_pipeline_fields [of w "''rewrite''"]
  by (auto simp: rewrite_tone_def call_pipeline_def Let_def split: prod.splits sum.splits)

lemma rewrite_tone_one_call:
  "\<exists>k. pipe_log (snd (rewrite_tone ev w t tn)) = pipe_log w @ [k]"
  using get_pipeline_fields(4) [of w "''rewrite''"] get_pipeline_known [of "''rewrite''" w]
  by (auto simp: rewrite_tone_def call_pipeline_def Let_def split: prod.splits sum.splits)

lemma summarize_hit:
  assumes "cache_lookup w (cache_key_for_input (sr_text req) ''summarize'' []) = Some v"
    and "v \<noteq> []"
  shows "summarize ev w req =
    (Inr \<lparr>resp_task = ''summarization'', resp_cached = True, resp_result = v\<rparr>,
     w\<lparr>redis_log := redis_log w @ [GET (cache_key_for_input (sr_text req) ''summarize'' [])]\<rparr>)"
  using assms by (simp add: summarize_def redis_get_def Let_def)

lemma summarize_miss:
  assumes "\<not> truthy (cache_lookup w (cache_key_for_input (sr_text req) ''summarize'' []))"
  shows "summarize ev w req =
    (let key = cache_key_for_input (sr_text req) ''summarize'' []
     in case summarize_text ev w (PStr (sr_text req)) (py_opt_int (sr_max_length req))
               (py_opt_int (sr_min_length req)) of
          (Inl e, w') \<Rightarrow> (Inl e, w'\<lparr>redis_log := redis_log w @ [GET key]\<rparr>)
        | (Inr r, w') \<Rightarrow>
            (Inr \<lparr>resp_task = ''summarization'', resp_cached = False, resp_result = r\<rparr>,
             w'\<lparr>store := (store w)(key \<mapsto> (r, clock w + CACHE_TTL ev)),
                redis_log := redis_log w @ [GET key, SETEX key (CACHE_TTL ev) r]\<rparr>))"
proof -
  let ?c = "summarize_text ev w (PStr (sr_text req)) (py_opt_int (sr_max_length req))
               (py_opt_int (sr_min_length req))"
  have s: "store (snd ?c) = store w" and c: "clock (snd ?c) = clock w"
    by (simp_all add: summarize_text_fields)
  show ?thesis
    using assms s c
    by (cases ?c) (auto simp: summarize_def redis_get_def redis_setex_def Let_def
        summarize_text_redis_log split: sum.splits)
qed


lemma qa_hit:
  assumes "cache_lookup w (cache_key_for_input (qa_context req @ qa_question req) ''qa'' []) = Some v"
    and "v \<noteq> []"
  shows "qa ev w req =
    (Inr \<lparr>resp_task = ''qa'', resp_cached = True, resp_result = v\<rparr>,
     w\<lparr>redis_log := redis_log w
          @ [GET (cache_key_for_input (qa_context req @ qa_question req) ''qa'' [])]\<rparr>)"
  using assms by (simp add: qa_def redis_get_def Let_def)

lemma qa_miss:
  assumes "\<not> truthy (cache_lookup w (cache_key_for_input (qa_context req @ qa_question req) ''qa'' []))"
  shows "qa ev w req =
    (let key = cache_key_for_input (qa_context req @ qa_question req) ''qa'' []
     in case answer_question ev w (PStr (qa_context req)) (PStr (qa_question req)) of
          (Inl e, w') \<Rightarrow> (Inl e, w'\<lparr>redis_log := redis_log w @ [GET key]\<rparr>)
        | (Inr r, w') \<Rightarrow>
            (Inr \<lparr>resp_task = ''qa'', resp_cached = False, resp_result = r\<rparr>,
             w'\<lparr>store := (store w)(key \<mapsto> (r, clock w + CACHE_TTL ev)),
                redis_log := redis_log w @ [GET key, SETEX key (CACHE_TTL ev) r]\<rparr>))"
proof -
  let ?c = "answer_question ev w (PStr (qa_context req)) (PStr (qa_question req))"
  have s: "store (snd ?c) = store w" and c: "clock (snd ?c) = clock w"
    by (simp_all add: answer_question_fields)
  show ?thesis
    using assms s c
    by (cases ?c) (auto simp: qa_def redis_get_def redis_setex_def Let_def
        answer_question_redis_log split: sum.splits)
qed

lemma rewrite_hit:
  assumes "cache_lookup w (cache_key_for_input (rw_text req) ''rewrite'' (tone_str (rw_tone req))) = Some v"
    and "v \<noteq> []"
  shows "rewrite ev w req =
    (Inr \<lparr>resp_task = ''rewrite'', resp_cached = True, resp_result = v\<rparr>,
     w\<lparr>redis_log := redis_log w
          @ [GET (cache_key_for_input (rw_text req) ''rewrite'' (tone_str (rw_tone req)))]\<rparr>)"
  using assms by (simp add: rewrite_def redis_get_def Let_def)

lemma rewrite_miss:
  assumes "\<not> truthy (cache_lookup w
      (cache_key_for_input (rw_text req) ''rewrite'' (tone_str (rw_tone req))))"
  shows "rewrite ev w req =
    (let key = cache_key_for_input (rw_text req) ''rewrite'' (tone_str (rw_tone req))
     in case rewrite_tone ev w (PStr (rw_text req)) (PStr (tone_str (rw_tone req))) of
          (Inl e, w') \<Rightarrow> (Inl e, w'\<lparr>redis_log := redis_log w @ [GET key]\<rparr>)
        | (Inr r, w') \<Rightarrow>
            (Inr \<lparr>resp_task = ''rewrite'', resp_cached = False, resp_result = r\<rparr>,
             w'\<lparr>store := (store w)(key \<mapsto> (r, clock w + CACHE_TTL ev)),
                redis_log := redis_log w @ [GET key, SETEX key (CACHE_TTL ev) r]\<rparr>))"
proof -
  let ?c = "rewrite_tone ev w (PStr (rw_text req)) (PStr (tone_str (rw_tone req)))"
  have s: "store (snd ?c) = store w" and c: "clock (snd ?c) = clock w"
    by (simp_all add: rewrite_tone_fields)
  show ?thesis
    using assms s c
    by (cases ?c) (auto simp: rewrite_def redis_get_def redis_setex_def Let_def
        rewrite_tone_redis_log split: sum.splits)
qed

lemma cache_lookup_stays_absent:
  assumes "cache_lookup w k = None" and "store w' = store w" and "clock w' = clock w"
  shows "cache_lookup (advance d w') k = None"
  using assms by (auto simp: cache_lookup_def advance_def split: option.splits if_splits)

lemmas eval_defs = cache_lookup_def empty_world_def example_env_def summarize_text_def
  answer_question_def rewrite_tone_def get_pipeline_def load_pipeline_def call_pipeline_def

lemma lookup_live:
  assumes "store w k = Some (v, t)" and "clock w < t"
  shows "cache_lookup w k = Some v"
  using assms by (simp add: cache_lookup_def)

lemma warm_lookup:
  "cache_lookup warm_world (cache_key_for_input ''x'' ''summarize'' []) = Some ''s''"
  "cache_lookup warm_world (cache_key_for_input (''c'' @ ''q'') ''qa'' []) = Some ''a''"
  "cache_lookup warm_world (cache_key_for_input ''x'' ''rewrite'' ''formal'') = Some ''r''"
  by (simp_all add: warm_world_def cache_lookup_def empty_world_def cache_key_for_input_def)

lemma blank_lookup:
  "cache_lookup blank_world (cache_key_for_input ''x'' ''summarize'' []) = Some []"
  "cache_lookup blank_world (cache_key_for_input (''c'' @ ''q'') ''qa'' []) = Some []"
  "cache_lookup blank_world (cache_key_for_input ''x'' ''rewrite'' ''formal'') = Some []"
  by (simp_all add: blank_world_def cache_lookup_def empty_world_def cache_key_for_input_def)

lemma digit_char_inj:
  assumes "digit_char m = digit_char n"
  shows "m mod 10 = n mod 10"
proof -
  have d: "distinct ''0123456789''" by simp
  have "m mod 10 < length ''0123456789''" "n mod 10 < length ''0123456789''" by simp_all
  with d assms show ?thesis
    unfolding digit_char_def by (simp only: nth_eq_iff_index_eq)
qed

lemma str_nat_nonempty: "str_nat n \<noteq> []"
  by (subst str_nat.simps) simp

lemma str_nat_inj: "str_nat m = str_nat n \<Longrightarrow> m = n"
proof (induction m arbitrary: n rule: str_nat.induct)
  case (1 m)
  from "1.prems" have e: "(if m < 10 then [digit_char m] else str_nat (m div 10) @ [digit_char m])
      = (if n < 10 then [digit_char n] else str_nat (n div 10) @ [digit_char n])"
    by (subst (asm) str_nat.simps, subst (asm) (2) str_nat.simps) simp
  show ?case
  proof (cases "m < 10")
    case True
    show ?thesis
    proof (cases "n < 10")
      case n: True
      from e True n have "digit_char m = digit_char n" by simp
      then have "m mod 10 = n mod 10" by (rule digit_char_inj)
      with True n show ?thesis by simp
    next
      case n: False
      from e True n have "str_nat (n div 10) = []" by simp
      with str_nat_nonempty show ?thesis by blast
    qed
  next
    case False
    show ?thesis
    proof (cases "n < 10")
      case n: True
      from e False n have "str_nat (m div 10) = []" by simp
      with str_nat_nonempty show ?thesis by blast
    next
      case n: False
      from e False n have "str_nat (m div 10) = str_nat (n div 10)"
        and "digit_char m = digit_char n"
        by simp_all
      with "1.IH" False have "m div 10 = n div 10" and "m mod 10 = n mod 10"
        by (auto dest: digit_char_inj)
      then show ?thesis by (metis div_mult_mod_eq)
    qed
  qed
qed

lemma distinct_issued: "distinct (issued w)"
  by (auto simp: issued_def distinct_map intro!: inj_onI dest: str_nat_inj)

lemma issued_Suc:
  assumes "uuid_count w' = Suc (uuid_count w)"
  shows "issued w' = issued w @ [str_nat (uuid_count w)]"
proof -
  have "[0 ..< uuid_count w'] = [0 ..< uuid_count w] @ [uuid_count w]"
    unfolding assms by simp
  then show ?thesis by (simp add: issued_def)
qed

lemma next_id_fresh: "str_nat (uuid_count w) \<notin> set (issued w)"
  by (auto simp: issued_def dest: str_nat_inj)

lemma submit_job_eq:
  "submit_job w task_type payload =
     (\<lparr>job_id = str_nat (uuid_count w), status = ''queued''\<rparr>,
      w\<lparr>rq_jobs := (rq_jobs w)(str_nat (uuid_count w) \<mapsto>
            \<lparr>job_task = task_type, job_payload = payload, job_state = ''queued'',
              job_return = None\<rparr>),
        rq_queue := rq_queue w @ [str_nat (uuid_count w)],
        uuid_count := Suc (uuid_count w),
        store := (store w)(''job:'' @ str_nat (uuid_count w) @ '':status''
                    \<mapsto> (''queued'', clock w + 3600)),
        redis_log := redis_log w
          @ [SETEX (''job:'' @ str_nat (uuid_count w) @ '':status'') 3600 ''queued'']\<rparr>)"
  by (simp add: submit_job_def enqueue_def redis_setex_def Let_def)

lemma ids_issued_empty: "ids_issued empty_world"
  by (simp add: ids_issued_def empty_world_def)


lemma str_nat_small: "str_nat 0 = ''0''" "str_nat (Suc 0) = ''1''"
  by (simp_all add: str_nat.simps digit_char_def)


section \<open>Properties of the specification\<close>

text \<open>
  C1. Idempotence of a cache hit: after a dispatch that completed and stored its result,
  a later dispatch of the same request before the entry expires is to be answered from
  the cache with the same result and without an inference call. The handlers break this
  when the result is the empty string: the value is stored, but \<open>if cached:\<close> is
  false for it. Here the summarization pipeline returns a single space, which
  \<open>strip()\<close> turns into the empty string; the second identical request, one second
  later, is answered with \<open>cached = False\<close> after a second pipeline call and a second
  write.
\<close>

theorem empty_result_is_never_served_from_cache:
  "(let ev = example_env (Inr '' '');
        req = \<lparr>sr_text = ''x'', sr_max_length = Some 150, sr_min_length = Some 25\<rparr>;
        key = cache_key_for_input ''x'' ''summarize'' [];
        first = summarize ev empty_world req;
        later = advance 1 (snd first);
        second = summarize ev later req
    in fst first = Inr \<lparr>resp_task = ''summarization'', resp_cached = False, resp_result = []\<rparr>
     \<and> store (snd first) key = Some ([], 86400)
     \<and> cache_lookup later key = Some []
     \<and> fst second = Inr \<lparr>resp_task = ''summarization'', resp_cached = False, resp_result = []\<rparr>
     \<and> length (pipe_log (snd first)) = 1
     \<and> length (pipe_log (snd second)) = 2
     \<and> redis_log (snd second)
         = [GET key, SETEX key 86400 [], GET key, SETEX key 86400 []])"
  by (simp add: Let_def summarize_def redis_get_def redis_setex_def advance_def eval_defs
      strip_def ws1_def)

text \<open>
  C2. Atomicity on inference failure: when the cache lookup of a synchronous request
  misses and the inference call raises, the handler raises the same exception and sends no
  write to the cache: the store is unchanged, the only command sent is the GET, and a
  later GET of the key still finds nothing, however much time passes. Stated for
  \<open>summarize\<close>, \<open>qa\<close> and \<open>rewrite\<close>.
\<close>

theorem inference_failure_leaves_cache_untouched:
  "(cache_lookup w (cache_key_for_input (sr_text sreq) ''summarize'' []) = None
      \<and> fst (summarize_text ev w (PStr (sr_text sreq)) (py_opt_int (sr_max_length sreq))
               (py_opt_int (sr_min_length sreq))) = Inl e1
    \<longrightarrow> fst (summarize ev w sreq) = Inl e1
      \<and> store (snd (summarize ev w sreq)) = store w
      \<and> redis_log (snd (summarize ev w sreq))
          = redis_log w @ [GET (cache_key_for_input (sr_text sreq) ''summarize'' [])]
      \<and> (\<forall>d. cache_lookup (advance d (snd (summarize ev w sreq)))
                (cache_key_for_input (sr_text sreq) ''summarize'' []) = None))
   \<and> (cache_lookup w (cache_key_for_input (qa_context qreq @ qa_question qreq) ''qa'' []) = None
      \<and> fst (answer_question ev w (PStr (qa_context qreq)) (PStr (qa_question qreq))) = Inl e2
    \<longrightarrow> fst (qa ev w qreq) = Inl e2
      \<and> store (snd (qa ev w qreq)) = store w
      \<and> redis_log (snd (qa ev w qreq))
          = redis_log w @ [GET (cache_key_for_input (qa_context qreq @ qa_question qreq) ''qa'' [])]
      \<and> (\<forall>d. cache_lookup (advance d (snd (qa ev w qreq)))
                (cache_key_for_input (qa_context qreq @ qa_question qreq) ''qa'' []) = None))
   \<and> (cache_lookup w (cache_key_for_input (rw_text rreq) ''rewrite'' (tone_str (rw_tone rreq))) = None
      \<and> fst (rewrite_tone ev w (PStr (rw_text rreq)) (PStr (tone_str (rw_tone rreq)))) = Inl e3
    \<longrightarrow> fst (rewrite ev w rreq) = Inl e3
      \<and> store (snd (rewrite ev w rreq)) = store w
      \<and> redis_log (snd (rewrite ev w rreq))
          = redis_log w @ [GET (cache_key_for_input (rw_text rreq) ''rewrite'' (tone_str (rw_tone rreq)))]
      \<and> (\<forall>d. cache_lookup (advance d (snd (rewrite ev w rreq)))
                (cache_key_for_input (rw_text rreq) ''rewrite'' (tone_str (rw_tone rreq))) = None))"
proof (intro conjI impI)
  let ?k = "cache_key_for_input (sr_text sreq) ''summarize'' []"
  let ?c = "summarize_text ev w (PStr (sr_text sreq)) (py_opt_int (sr_max_length sreq))
               (py_opt_int (sr_min_length sreq))"
  assume h: "cache_lookup w ?k = None \<and> fst ?c = Inl e1"
  then have m: "\<not> truthy (cache_lookup w ?k)" by simp
  from h have r: "summarize ev w sreq = (Inl e1, (snd ?c)\<lparr>redis_log := redis_log w @ [GET ?k]\<rparr>)"
    by (cases ?c) (simp add: summarize_miss [OF m] Let_def)
  show "fst (summarize ev w sreq) = Inl e1" by (simp add: r)
  show s: "store (snd (summarize ev w sreq)) = store w"
    by (simp add: r summarize_text_fields)
  show "redis_log (snd (summarize ev w sreq)) = redis_log w @ [GET ?k]" by (simp add: r)
  have c: "clock (snd (summarize ev w sreq)) = clock w"
    by (simp add: r summarize_text_fields)
  from h have n: "cache_lookup w ?k = None" by simp
  show "\<forall>d. cache_lookup (advance d (snd (summarize ev w sreq))) ?k = None"
    by (intro allI cache_lookup_stays_absent [OF n s c])
next
  let ?k = "cache_key_for_input (qa_context qreq @ qa_question qreq) ''qa'' []"
  let ?c = "answer_question ev w (PStr (qa_context qreq)) (PStr (qa_question qreq))"
  assume h: "cache_lookup w ?k = None \<and> fst ?c = Inl e2"
  then have m: "\<not> truthy (cache_lookup w ?k)" by simp
  from h have r: "qa ev w qreq = (Inl e2, (snd ?c)\<lparr>redis_log := redis_log w @ [GET ?k]\<rparr>)"
    by (cases ?c) (simp add: qa_miss [OF m] Let_def)
  show "fst (qa ev w qreq) = Inl e2" by (simp add: r)
  show s: "store (snd (qa ev w qreq)) = store w"
    by (simp add: r answer_question_fields)
  show "redis_log (snd (qa ev w qreq)) = redis_log w @ [GET ?k]" by (simp add: r)
  have c: "clock (snd (qa ev w qreq)) = clock w"
    by (simp add: r answer_question_fields)
  from h have n: "cache_lookup w ?k = None" by simp
  show "\<forall>d. cache_lookup (advance d (snd (qa ev w qreq))) ?k = None"
    by (intro allI cache_lookup_stays_absent [OF n s c])
next
  let ?k = "cache_key_for_input (rw_text rreq) ''rewrite'' (tone_str (rw_tone rreq))"
  let ?c = "rewrite_tone ev w (PStr (rw_text rreq)) (PStr (tone_str (rw_tone rreq)))"
  assume h: "cache_lookup w ?k = None \<and> fst ?c = Inl e3"
  then have m: "\<not> truthy (cache_lookup w ?k)" by simp
  from h have r: "rewrite ev w rreq = (Inl e3, (snd ?c)\<lparr>redis_log := redis_log w @ [GET ?k]\<rparr>)"
    by (cases ?c) (simp add: rewrite_miss [OF m] Let_def)
  show "fst (rewrite ev w rreq) = Inl e3" by (simp add: r)
  show s: "store (snd (rewrite ev w rreq)) = store w"
    by (simp add: r rewrite_tone_fields)
  show "redis_log (snd (rewrite ev w rreq)) = redis_log w @ [GET ?k]" by (simp add: r)
  have c: "clock (snd (rewrite ev w rreq)) = clock w"
    by (simp add: r rewrite_tone_fields)
  from h have n: "cache_lookup w ?k = None" by simp
  show "\<forall>d. cache_lookup (advance d (snd (rewrite ev w rreq))) ?k = None"
    by (intro allI cache_lookup_stays_absent [OF n s c])
qed


theorem inference_failure_leaves_cache_untouched_witness:
  "cache_lookup empty_world (cache_key_for_input ''x'' ''summarize'' []) = None
   \<and> fst (summarize_text (example_env (Inl (PipelineError ''out of memory''))) empty_world
            (PStr ''x'') (PInt 150) (PInt 25)) = Inl (PipelineError ''out of memory'')
   \<and> fst (summarize (example_env (Inl (PipelineError ''out of memory''))) empty_world
            \<lparr>sr_text = ''x'', sr_max_length = Some 150, sr_min_length = Some 25\<rparr>)
        = Inl (PipelineError ''out of memory'')
   \<and> cache_lookup (advance 5 (snd (summarize (example_env (Inl (PipelineError ''out of memory'')))
            empty_world \<lparr>sr_text = ''x'', sr_max_length = Some 150, sr_min_length = Some 25\<rparr>)))
        (cache_key_for_input ''x'' ''summarize'' []) = None
   \<and> cache_lookup empty_world (cache_key_for_input (''c'' @ ''q'') ''qa'' []) = None
   \<and> fst (answer_question (example_env (Inl (PipelineError ''out of memory''))) empty_world
            (PStr ''c'') (PStr ''q'')) = Inl (PipelineError ''out of memory'')
   \<and> fst (qa (example_env (Inl (PipelineError ''out of memory''))) empty_world
            \<lparr>qa_context = ''c'', qa_question = ''q''\<rparr>) = Inl (PipelineError ''out of memory'')
   \<and> cache_lookup empty_world (cache_key_for_input ''x'' ''rewrite'' ''formal'') = None
   \<and> fst (rewrite_tone (example_env (Inl (PipelineError ''out of memory''))) empty_world
            (PStr ''x'') (PStr ''formal'')) = Inl (PipelineError ''out of memory'')
   \<and> fst (rewrite (example_env (Inl (PipelineError ''out of memory''))) empty_world
            \<lparr>rw_text = ''x'', rw_tone = formal\<rparr>) = Inl (PipelineError ''out of memory'')"
proof -
  let ?ev = "example_env (Inl (PipelineError ''out of memory''))"
  have h1: "cache_lookup empty_world (cache_key_for_input ''x'' ''summarize'' []) = None"
    and h2: "fst (summarize_text ?ev empty_world (PStr ''x'') (PInt 150) (PInt 25))
              = Inl (PipelineError ''out of memory'')"
    and h3: "cache_lookup empty_world (cache_key_for_input (''c'' @ ''q'') ''qa'' []) = None"
    and h4: "fst (answer_question ?ev empty_world (PStr ''c'') (PStr ''q''))
              = Inl (PipelineError ''out of memory'')"
    and h5: "cache_lookup empty_world (cache_key_for_input ''x'' ''rewrite'' ''formal'') = None"
    and h6: "fst (rewrite_tone ?ev empty_world (PStr ''x'') (PStr ''formal''))
              = Inl (PipelineError ''out of memory'')"
    by (simp_all add: eval_defs)
  from h1 h2 h3 h4 h5 h6
    inference_failure_leaves_cache_untouched [where w = empty_world and ev = ?ev
      and sreq = "\<lparr>sr_text = ''x'', sr_max_length = Some 150, sr_min_length = Some 25\<rparr>"
      and qreq = "\<lparr>qa_context = ''c'', qa_question = ''q''\<rparr>"
      and rreq = "\<lparr>rw_text = ''x'', rw_tone = formal\<rparr>"
      and ?e1.0 = "PipelineError ''out of memory''" and ?e2.0 = "PipelineError ''out of memory''"
      and ?e3.0 = "PipelineError ''out of memory''"]
  show ?thesis by simp
qed

text \<open>
  C4. The \<open>/qa\<close> endpoint derives its key from \<open>context + question\<close> with no
  separator. There are two distinct payloads with the same key; and whenever two payloads
  have the same concatenation, a non-empty answer computed and stored for the first is
  returned with \<open>cached = True\<close> for the second, in any later world that still holds
  the entry and in which it has not expired, with no pipeline call and no write.
\<close>

theorem qa_concatenation_collision:
  "(\<exists>p1 p2 :: QARequest. p1 \<noteq> p2
       \<and> cache_key_for_input (qa_context p1 @ qa_question p1) ''qa'' []
         = cache_key_for_input (qa_context p2 @ qa_question p2) ''qa'' [])
   \<and> (qa_context r1 @ qa_question r1 = qa_context r2 @ qa_question r2
      \<longrightarrow> cache_key_for_input (qa_context r1 @ qa_question r1) ''qa'' []
          = cache_key_for_input (qa_context r2 @ qa_question r2) ''qa'' []
        \<and> (\<not> truthy (cache_lookup w (cache_key_for_input (qa_context r1 @ qa_question r1) ''qa'' []))
            \<and> fst (answer_question ev w (PStr (qa_context r1)) (PStr (qa_question r1))) = Inr a
            \<and> a \<noteq> []
            \<and> store w2 (cache_key_for_input (qa_context r1 @ qa_question r1) ''qa'' [])
                = store (snd (qa ev w r1))
                    (cache_key_for_input (qa_context r1 @ qa_question r1) ''qa'' [])
            \<and> clock w2 < clock w + CACHE_TTL ev
          \<longrightarrow> fst (qa ev w r1) = Inr \<lparr>resp_task = ''qa'', resp_cached = False, resp_result = a\<rparr>
            \<and> fst (qa ev w2 r2) = Inr \<lparr>resp_task = ''qa'', resp_cached = True, resp_result = a\<rparr>
            \<and> pipe_log (snd (qa ev w2 r2)) = pipe_log w2
            \<and> store (snd (qa ev w2 r2)) = store w2))"
proof (intro conjI impI)
  have "\<lparr>qa_context = ''ab'', qa_question = ''c''\<rparr> \<noteq> \<lparr>qa_context = ''a'', qa_question = ''bc''\<rparr>"
    by simp
  moreover have "cache_key_for_input
        (qa_context \<lparr>qa_context = ''ab'', qa_question = ''c''\<rparr>
          @ qa_question \<lparr>qa_context = ''ab'', qa_question = ''c''\<rparr>) ''qa'' []
      = cache_key_for_input
        (qa_context \<lparr>qa_context = ''a'', qa_question = ''bc''\<rparr>
          @ qa_question \<lparr>qa_context = ''a'', qa_question = ''bc''\<rparr>) ''qa'' []"
    by simp
  ultimately show "\<exists>p1 p2 :: QARequest. p1 \<noteq> p2
       \<and> cache_key_for_input (qa_context p1 @ qa_question p1) ''qa'' []
         = cache_key_for_input (qa_context p2 @ qa_question p2) ''qa'' []"
    by blast
next
  assume "qa_context r1 @ qa_question r1 = qa_context r2 @ qa_question r2"
  then show "cache_key_for_input (qa_context r1 @ qa_question r1) ''qa'' []
          = cache_key_for_input (qa_context r2 @ qa_question r2) ''qa'' []"
    by simp
next
  let ?k = "cache_key_for_input (qa_context r1 @ qa_question r1) ''qa'' []"
  let ?c = "answer_question ev w (PStr (qa_context r1)) (PStr (qa_question r1))"
  assume same: "qa_context r1 @ qa_question r1 = qa_context r2 @ qa_question r2"
  assume h: "\<not> truthy (cache_lookup w ?k) \<and> fst ?c = Inr a \<and> a \<noteq> []
      \<and> store w2 ?k = store (snd (qa ev w r1)) ?k \<and> clock w2 < clock w + CACHE_TTL ev"
  then have m: "\<not> truthy (cache_lookup w ?k)" by simp
  from h show "fst (qa ev w r1) = Inr \<lparr>resp_task = ''qa'', resp_cached = False, resp_result = a\<rparr>"
    by (cases ?c) (simp add: qa_miss [OF m] Let_def)
  from h have "store (snd (qa ev w r1)) ?k = Some (a, clock w + CACHE_TTL ev)"
    by (cases ?c) (simp add: qa_miss [OF m] Let_def)
  with h have "cache_lookup w2 ?k = Some a"
    by (simp add: lookup_live)
  with same have l: "cache_lookup w2 (cache_key_for_input (qa_context r2 @ qa_question r2) ''qa'' [])
      = Some a"
    by simp
  from h have ne: "a \<noteq> []" by simp
  show "fst (qa ev w2 r2) = Inr \<lparr>resp_task = ''qa'', resp_cached = True, resp_result = a\<rparr>"
    and "pipe_log (snd (qa ev w2 r2)) = pipe_log w2"
    and "store (snd (qa ev w2 r2)) = store w2"
    by (simp_all add: qa_hit [OF l ne])
qed

theorem qa_concatenation_collision_witness:
  "\<lparr>qa_context = ''ab'', qa_question = ''c''\<rparr> \<noteq> \<lparr>qa_context = ''a'', qa_question = ''bc''\<rparr>
   \<and> ''ab'' @ ''c'' = ''a'' @ ''bc''
   \<and> \<not> truthy (cache_lookup empty_world (cache_key_for_input (''ab'' @ ''c'') ''qa'' []))
   \<and> fst (answer_question (example_env (Inr ''Paris'')) empty_world (PStr ''ab'') (PStr ''c''))
        = Inr ''Paris''
   \<and> fst (qa (example_env (Inr ''Paris'')) empty_world \<lparr>qa_context = ''ab'', qa_question = ''c''\<rparr>)
        = Inr \<lparr>resp_task = ''qa'', resp_cached = False, resp_result = ''Paris''\<rparr>
   \<and> fst (qa (example_env (Inr ''Paris''))
            (advance 10 (snd (qa (example_env (Inr ''Paris'')) empty_world
               \<lparr>qa_context = ''ab'', qa_question = ''c''\<rparr>)))
            \<lparr>qa_context = ''a'', qa_question = ''bc''\<rparr>)
        = Inr \<lparr>resp_task = ''qa'', resp_cached = True, resp_result = ''Paris''\<rparr>"
proof -
  let ?ev = "example_env (Inr ''Paris'')"
  let ?r1 = "\<lparr>qa_context = ''ab'', qa_question = ''c''\<rparr>"
  let ?r2 = "\<lparr>qa_context = ''a'', qa_question = ''bc''\<rparr>"
  have m: "\<not> truthy (cache_lookup empty_world (cache_key_for_input ''abc'' ''qa'' []))"
    "fst (answer_question ?ev empty_world (PStr ''ab'') (PStr ''c'')) = Inr ''Paris''"
    by (simp_all add: eval_defs)
  have t: "clock (advance 10 w) < clock empty_world + CACHE_TTL ?ev \<longleftrightarrow> clock w < 86390"
    "store (advance 10 w) = store w" for w
    by (simp_all add: advance_def empty_world_def example_env_def)
  have c: "clock (snd (qa ?ev empty_world ?r1)) = 0"
    by (simp add: qa_def redis_get_def redis_setex_def Let_def eval_defs)
  from m t c
    qa_concatenation_collision [where w = empty_world and ev = ?ev and ?r1.0 = ?r1 and ?r2.0 = ?r2
      and a = "''Paris''" and ?w2.0 = "advance 10 (snd (qa ?ev empty_world ?r1))"]
  have "fst (qa ?ev empty_world ?r1)
        = Inr \<lparr>resp_task = ''qa'', resp_cached = False, resp_result = ''Paris''\<rparr>"
    "fst (qa ?ev (advance 10 (snd (qa ?ev empty_world ?r1))) ?r2)
        = Inr \<lparr>resp_task = ''qa'', resp_cached = True, resp_result = ''Paris''\<rparr>"
    by simp_all
  with m show ?thesis by simp
qed

text \<open>
  C5. Status and result differ on an identifier that cannot be resolved: \<open>job_status\<close>
  answers normally with the status \<open>unknown\<close>, \<open>job_result\<close> raises the HTTP error
  404.
\<close>

theorem unresolved_job_status_and_result:
  "rq_jobs w jid = None \<Longrightarrow>
     job_status w jid = Inr \<lparr>jv_job_id = jid, jv_status = ''unknown'', jv_result = None\<rparr>
     \<and> job_result w jid = Inl (HTTPException 404 ''Job not found'')"
  by (simp add: job_status_def job_result_def Job_fetch_def)

theorem unresolved_job_status_and_result_witness:
  "rq_jobs empty_world ''nonexistent-id'' = None
   \<and> job_status empty_world ''nonexistent-id''
       = Inr \<lparr>jv_job_id = ''nonexistent-id'', jv_status = ''unknown'', jv_result = None\<rparr>
   \<and> job_result empty_world ''nonexistent-id'' = Inl (HTTPException 404 ''Job not found'')"
proof -
  have h: "rq_jobs empty_world ''nonexistent-id'' = None"
    by (simp add: empty_world_def)
  from h unresolved_job_status_and_result [OF h] show ?thesis by simp
qed

text \<open>
  C6. Submission contract: \<open>submit_job\<close> has the queue generate an identifier that
  differs from every identifier issued before, so that the identifiers issued stay
  pairwise distinct; a job binding the task type and the payload to it, with status
  queued, is stored and appended to the queue, and no other job is changed; the record
  \<open>job:<id>:status\<close> is written with value \<open>queued\<close> and a time to live of
  3600 seconds; no pipeline is called; and the identifier is returned with status
  \<open>queued\<close>. Until a worker acts, \<open>job_status\<close> reports \<open>queued\<close> for it,
  however much time passes. Where every job kept carries an identifier issued before, the
  new identifier is that of no job kept, and this stays so.
\<close>

theorem submit_contract:
  "submit_job w task_type payload = (r, w') \<Longrightarrow>
     job_id r \<notin> set (issued w)
     \<and> issued w' = issued w @ [job_id r]
     \<and> distinct (issued w')
     \<and> status r = ''queued''
     \<and> rq_queue w' = rq_queue w @ [job_id r]
     \<and> rq_jobs w' (job_id r)
         = Some \<lparr>job_task = task_type, job_payload = payload, job_state = ''queued'',
                 job_return = None\<rparr>
     \<and> (\<forall>j. j \<noteq> job_id r \<longrightarrow> rq_jobs w' j = rq_jobs w j)
     \<and> store w' (''job:'' @ job_id r @ '':status'') = Some (''queued'', clock w + 3600)
     \<and> redis_log w' = redis_log w @ [SETEX (''job:'' @ job_id r @ '':status'') 3600 ''queued'']
     \<and> pipe_log w' = pipe_log w
     \<and> (\<forall>d. job_status (advance d w') (job_id r)
             = Inr \<lparr>jv_job_id = job_id r, jv_status = ''queued'', jv_result = None\<rparr>)
     \<and> (ids_issued w \<longrightarrow> job_id r \<notin> dom (rq_jobs w) \<and> ids_issued w')"
proof -
  assume a: "submit_job w task_type payload = (r, w')"
  let ?j = "str_nat (uuid_count w)"
  from a have r: "r = \<lparr>job_id = ?j, status = ''queued''\<rparr>"
    and w': "w' = w\<lparr>rq_jobs := (rq_jobs w)(?j \<mapsto>
            \<lparr>job_task = task_type, job_payload = payload, job_state = ''queued'',
              job_return = None\<rparr>),
        rq_queue := rq_queue w @ [?j],
        uuid_count := Suc (uuid_count w),
        store := (store w)(''job:'' @ ?j @ '':status'' \<mapsto> (''queued'', clock w + 3600)),
        redis_log := redis_log w @ [SETEX (''job:'' @ ?j @ '':status'') 3600 ''queued'']\<rparr>"
    by (simp_all add: submit_job_eq)
  have j: "job_id r = ?j" by (simp add: r)
  have c: "uuid_count w' = Suc (uuid_count w)" by (simp add: w')
  have u1: "job_id r \<notin> set (issued w)"
    unfolding j by (rule next_id_fresh)
  have u2: "issued w' = issued w @ [job_id r]"
    unfolding j by (rule issued_Suc [OF c])
  have u3: "distinct (issued w')" by (rule distinct_issued)
  have inv: "job_id r \<notin> dom (rq_jobs w) \<and> ids_issued w'" if s: "ids_issued w"
  proof
    from s u1 show "job_id r \<notin> dom (rq_jobs w)"
      by (auto simp: ids_issued_def)
    show "ids_issued w'"
      unfolding ids_issued_def
    proof
      fix k assume "k \<in> dom (rq_jobs w')"
      then have "k = ?j \<or> k \<in> dom (rq_jobs w)" by (auto simp: w' split: if_splits)
      with s show "k \<in> set (issued w')"
        unfolding u2 j by (auto simp: ids_issued_def)
    qed
  qed
  have rest: "status r = ''queued''"
    "rq_queue w' = rq_queue w @ [job_id r]"
    "rq_jobs w' (job_id r)
         = Some \<lparr>job_task = task_type, job_payload = payload, job_state = ''queued'',
                 job_return = None\<rparr>"
    "\<forall>j. j \<noteq> job_id r \<longrightarrow> rq_jobs w' j = rq_jobs w j"
    "store w' (''job:'' @ job_id r @ '':status'') = Some (''queued'', clock w + 3600)"
    "redis_log w' = redis_log w @ [SETEX (''job:'' @ job_id r @ '':status'') 3600 ''queued'']"
    "pipe_log w' = pipe_log w"
    "\<forall>d. job_status (advance d w') (job_id r)
             = Inr \<lparr>jv_job_id = job_id r, jv_status = ''queued'', jv_result = None\<rparr>"
    by (simp_all add: r w' job_status_def Job_fetch_def get_status_def advance_def)
  from u1 u2 u3 rest inv show ?thesis by blast
qed

text \<open>
  Two submissions in a row on the empty world: the second identifier differs from the
  first, and the first job is still there.
\<close>

theorem submit_contract_witness:
  "(let p1 = [''context'' \<mapsto> PStr ''Paris is the capital of France.'',
              ''question'' \<mapsto> PStr ''What is the capital of France?''];
        p2 = [''text'' \<mapsto> PStr ''x''];
        first = submit_job empty_world ''qa'' p1;
        second = submit_job (snd first) ''summarize'' p2
    in fst first = \<lparr>job_id = ''0'', status = ''queued''\<rparr>
     \<and> fst second = \<lparr>job_id = ''1'', status = ''queued''\<rparr>
     \<and> ids_issued (snd first)
     \<and> issued (snd first) = [''0'']
     \<and> ''1'' \<notin> set (issued (snd first))
     \<and> ''1'' \<notin> dom (rq_jobs (snd first))
     \<and> issued (snd second) = [''0'', ''1'']
     \<and> rq_queue (snd second) = [''0'', ''1'']
     \<and> rq_jobs (snd second) ''0''
         = Some \<lparr>job_task = ''qa'', job_payload = p1, job_state = ''queued'', job_return = None\<rparr>
     \<and> job_status (advance 7200 (snd second)) ''1''
         = Inr \<lparr>jv_job_id = ''1'', jv_status = ''queued'', jv_result = None\<rparr>)"
proof -
  let ?p1 = "[''context'' \<mapsto> PStr ''Paris is the capital of France.'',
              ''question'' \<mapsto> PStr ''What is the capital of France?'']"
  let ?p2 = "[''text'' \<mapsto> PStr ''x'']"
  let ?f = "submit_job empty_world ''qa'' ?p1"
  let ?s = "submit_job (snd ?f) ''summarize'' ?p2"
  have hf: "?f = (fst ?f, snd ?f)" and hs: "?s = (fst ?s, snd ?s)" by simp_all
  note cf = submit_contract [OF hf]
  note cs = submit_contract [OF hs]
  have e: "issued empty_world = []" "rq_queue empty_world = []"
    by (simp_all add: issued_def empty_world_def)
  have jf: "job_id (fst ?f) = ''0''" "status (fst ?f) = ''queued''"
    by (simp_all add: submit_job_eq empty_world_def str_nat_small)
  from cf ids_issued_empty have i1: "ids_issued (snd ?f)" by blast
  from cf have "issued (snd ?f) = issued empty_world @ [job_id (fst ?f)]" by blast
  with e jf have is1: "issued (snd ?f) = [''0'']" by simp
  from cf have "rq_queue (snd ?f) = rq_queue empty_world @ [job_id (fst ?f)]" by blast
  with e jf have q1: "rq_queue (snd ?f) = [''0'']" by simp
  from cf have "rq_jobs (snd ?f) (job_id (fst ?f))
      = Some \<lparr>job_task = ''qa'', job_payload = ?p1, job_state = ''queued'', job_return = None\<rparr>"
    by blast
  with jf have j1: "rq_jobs (snd ?f) ''0''
      = Some \<lparr>job_task = ''qa'', job_payload = ?p1, job_state = ''queued'', job_return = None\<rparr>"
    by simp
  have js: "job_id (fst ?s) = ''1''" "status (fst ?s) = ''queued''"
    by (simp_all add: submit_job_eq empty_world_def str_nat_small)
  from cs js have n1: "''1'' \<notin> set (issued (snd ?f))" by simp
  from cs i1 have "job_id (fst ?s) \<notin> dom (rq_jobs (snd ?f))" by blast
  with js have n2: "''1'' \<notin> dom (rq_jobs (snd ?f))" by simp
  from cs have "issued (snd ?s) = issued (snd ?f) @ [job_id (fst ?s)]" by blast
  with is1 js have is2: "issued (snd ?s) = [''0'', ''1'']" by simp
  from cs have "rq_queue (snd ?s) = rq_queue (snd ?f) @ [job_id (fst ?s)]" by blast
  with q1 js have q2: "rq_queue (snd ?s) = [''0'', ''1'']" by simp
  from cs have "\<forall>j. j \<noteq> job_id (fst ?s) \<longrightarrow> rq_jobs (snd ?s) j = rq_jobs (snd ?f) j" by blast
  then have "''0'' \<noteq> job_id (fst ?s) \<longrightarrow> rq_jobs (snd ?s) ''0'' = rq_jobs (snd ?f) ''0''"
    by (rule spec)
  with js j1 have j2: "rq_jobs (snd ?s) ''0''
      = Some \<lparr>job_task = ''qa'', job_payload = ?p1, job_state = ''queued'', job_return = None\<rparr>"
    by simp
  from cs have "\<forall>d. job_status (advance d (snd ?s)) (job_id (fst ?s))
      = Inr \<lparr>jv_job_id = job_id (fst ?s), jv_status = ''queued'', jv_result = None\<rparr>"
    by blast
  then have "job_status (advance 7200 (snd ?s)) (job_id (fst ?s))
      = Inr \<lparr>jv_job_id = job_id (fst ?s), jv_status = ''queued'', jv_result = None\<rparr>"
    by (rule spec)
  with js have st: "job_status (advance 7200 (snd ?s)) ''1''
      = Inr \<lparr>jv_job_id = ''1'', jv_status = ''queued'', jv_result = None\<rparr>"
    by simp
  have f1: "fst ?f = \<lparr>job_id = ''0'', status = ''queued''\<rparr>"
    and f2: "fst ?s = \<lparr>job_id = ''1'', status = ''queued''\<rparr>"
    using jf js by (simp_all add: submit_job_eq)
  from f1 f2 i1 is1 n1 n2 is2 q2 j2 st show ?thesis
    unfolding Let_def by (intro conjI)
qed

text \<open>
  C7. Cache-key purity and shape, as amended: \<open>cache_key_for_input\<close> is a function of
  its three arguments alone (it takes no state and returns none); its value is the literal
  \<open>cache\<close>, the task, the modifier and the digest, joined by a colon; the digest is the
  hex SHA-256 digest of the UTF-8 bytes of the content, 64 hex digits long; the colon
  occurs in none of the tasks and modifiers the handlers pass; and when it occurs in
  neither task nor modifier, the key determines the task, the modifier and the digest.
\<close>

theorem cache_key_shape:
  "cache_key_for_input content task modifier
      = joined '':'' [''cache'', task, modifier, sha256_text content]
   \<and> sha256_text content = hexdigest (sha256 (encode_utf8 content))
   \<and> length (sha256_text content) = 64
   \<and> set (sha256_text content) \<subseteq> set hex_chars
   \<and> CHR '':'' \<notin> set ''summarize'' \<union> set ''qa'' \<union> set ''rewrite'' \<union> set (tone_str tn) \<union> set []
   \<and> (CHR '':'' \<notin> set task \<union> set task' \<union> set modifier \<union> set modifier'
      \<longrightarrow> (cache_key_for_input content task modifier
              = cache_key_for_input content' task' modifier'
            \<longleftrightarrow> task = task' \<and> modifier = modifier'
                \<and> sha256_text content = sha256_text content'))"
proof (intro conjI impI)
  show "cache_key_for_input content task modifier
      = joined '':'' [''cache'', task, modifier, sha256_text content]"
    by (simp add: cache_key_for_input_def)
  show "sha256_text content = hexdigest (sha256 (encode_utf8 content))"
    by (simp add: sha256_text_def)
  show "length (sha256_text content) = 64" by (rule length_sha256_text)
  show "set (sha256_text content) \<subseteq> set hex_chars" by (rule set_sha256_text)
  show "CHR '':'' \<notin> set ''summarize'' \<union> set ''qa'' \<union> set ''rewrite'' \<union> set (tone_str tn) \<union> set []"
    by (cases tn) simp_all
next
  assume "CHR '':'' \<notin> set task \<union> set task' \<union> set modifier \<union> set modifier'"
  then show "cache_key_for_input content task modifier
              = cache_key_for_input content' task' modifier'
            \<longleftrightarrow> task = task' \<and> modifier = modifier'
                \<and> sha256_text content = sha256_text content'"
    by (intro cache_key_components) simp_all
qed

theorem cache_key_shape_witness:
  "CHR '':'' \<notin> set ''rewrite'' \<union> set ''rewrite'' \<union> set ''formal'' \<union> set ''informal''
   \<and> cache_key_for_input ''hello'' ''rewrite'' ''formal''
       \<noteq> cache_key_for_input ''hello'' ''rewrite'' ''informal''
   \<and> cache_key_for_input ''hello'' ''rewrite'' ''formal''
       = ''cache:rewrite:formal:'' @ sha256_text ''hello''
   \<and> length (sha256_text ''hello'') = 64"
proof -
  have h: "CHR '':'' \<notin> set ''rewrite'' \<union> set ''rewrite'' \<union> set ''formal'' \<union> set ''informal''"
    by simp
  note s = cache_key_shape [where content = "''hello''" and content' = "''hello''"
      and task = "''rewrite''" and task' = "''rewrite''" and modifier = "''formal''"
      and modifier' = "''informal''" and tn = formal]
  note shape = s [THEN conjunct1]
  note len = s [THEN conjunct2, THEN conjunct2, THEN conjunct1]
  note parts = s [THEN conjunct2, THEN conjunct2, THEN conjunct2, THEN conjunct2, THEN conjunct2,
      rule_format, OF h]
  from parts have "cache_key_for_input ''hello'' ''rewrite'' ''formal''
       \<noteq> cache_key_for_input ''hello'' ''rewrite'' ''informal''"
    by simp
  moreover from shape have "cache_key_for_input ''hello'' ''rewrite'' ''formal''
       = ''cache:rewrite:formal:'' @ sha256_text ''hello''"
    by simp
  ultimately show ?thesis using h len by simp
qed

text \<open>
  The key is not the join of task, modifier and digest alone: it starts with the literal
  \<open>cache:\<close>.
\<close>

theorem cache_key_differs_from_spec_shape:
  "cache_key_for_input [] ''summarize'' [] \<noteq> spec_cache_key ''summarize'' [] []"
  by (simp add: cache_key_for_input_def spec_cache_key_def)

text \<open>
  C8. Cache-write frame condition: a dispatch whose cache lookup hits is to send no write
  to the cache, and one whose lookup misses, followed by a successful inference call, is
  to send exactly one. The handlers break the first half when the value found is the
  empty string: the lookup returns it, \<open>if cached:\<close> is false for it, and the
  handler calls the pipeline and writes the key. Here the cache holds the empty string,
  live, under the key of the request; the handler answers \<open>cached = False\<close> and
  sends a SETEX after the GET.
\<close>

theorem empty_cached_value_is_written_over:
  "(let ev = example_env (Inr ''s'');
        req = \<lparr>sr_text = ''x'', sr_max_length = Some 150, sr_min_length = Some 25\<rparr>;
        key = cache_key_for_input ''x'' ''summarize'' [];
        out = summarize ev blank_world req
    in store blank_world key = Some ([], 60)
     \<and> cache_lookup blank_world key = Some []
     \<and> fst out = Inr \<lparr>resp_task = ''summarization'', resp_cached = False, resp_result = ''s''\<rparr>
     \<and> redis_log (snd out) = [GET key, SETEX key 86400 ''s'']
     \<and> store (snd out) key = Some (''s'', 86400)
     \<and> length (pipe_log (snd out)) = 1)"
  by (simp add: Let_def summarize_def redis_get_def redis_setex_def eval_defs blank_world_def
      cache_key_for_input_def strip_def ws1_def)




text \<open>
  C10. When the value stored under the key is the empty string, the handler's test
  \<open>if cached:\<close> fails, so the request is treated as a miss: the pipeline is called
  once more, and when the call succeeds the response has \<open>cached = False\<close> and the
  entry is written again. Stated for \<open>summarize\<close>, \<open>qa\<close> and \<open>rewrite\<close>.
\<close>

theorem empty_cached_value_is_a_miss:
  "(cache_lookup w (cache_key_for_input (sr_text sreq) ''summarize'' []) = Some []
      \<longrightarrow> (\<exists>c. pipe_log (snd (summarize ev w sreq)) = pipe_log w @ [c])
        \<and> (\<forall>r. fst (summarize_text ev w (PStr (sr_text sreq)) (py_opt_int (sr_max_length sreq))
                    (py_opt_int (sr_min_length sreq))) = Inr r
              \<longrightarrow> fst (summarize ev w sreq)
                    = Inr \<lparr>resp_task = ''summarization'', resp_cached = False, resp_result = r\<rparr>
                \<and> redis_log (snd (summarize ev w sreq))
                    = redis_log w @ [GET (cache_key_for_input (sr_text sreq) ''summarize'' []),
                        SETEX (cache_key_for_input (sr_text sreq) ''summarize'' []) (CACHE_TTL ev) r]
                \<and> store (snd (summarize ev w sreq)) (cache_key_for_input (sr_text sreq) ''summarize'' [])
                    = Some (r, clock w + CACHE_TTL ev)))
   \<and> (cache_lookup w (cache_key_for_input (qa_context qreq @ qa_question qreq) ''qa'' []) = Some []
      \<longrightarrow> (\<exists>c. pipe_log (snd (qa ev w qreq)) = pipe_log w @ [c])
        \<and> (\<forall>r. fst (answer_question ev w (PStr (qa_context qreq)) (PStr (qa_question qreq))) = Inr r
              \<longrightarrow> fst (qa ev w qreq)
                    = Inr \<lparr>resp_task = ''qa'', resp_cached = False, resp_result = r\<rparr>
                \<and> redis_log (snd (qa ev w qreq))
                    = redis_log w
                        @ [GET (cache_key_for_input (qa_context qreq @ qa_question qreq) ''qa'' []),
                           SETEX (cache_key_for_input (qa_context qreq @ qa_question qreq) ''qa'' [])
                             (CACHE_TTL ev) r]
                \<and> store (snd (qa ev w qreq))
                      (cache_key_for_input (qa_context qreq @ qa_question qreq) ''qa'' [])
                    = Some (r, clock w + CACHE_TTL ev)))
   \<and> (cache_lookup w (cache_key_for_input (rw_text rreq) ''rewrite'' (tone_str (rw_tone rreq)))
        = Some []
      \<longrightarrow> (\<exists>c. pipe_log (snd (rewrite ev w rreq)) = pipe_log w @ [c])
        \<and> (\<forall>r. fst (rewrite_tone ev w (PStr (rw_text rreq)) (PStr (tone_str (rw_tone rreq)))) = Inr r
              \<longrightarrow> fst (rewrite ev w rreq)
                    = Inr \<lparr>resp_task = ''rewrite'', resp_cached = False, resp_result = r\<rparr>
                \<and> redis_log (snd (rewrite ev w rreq))
                    = redis_log w
                        @ [GET (cache_key_for_input (rw_text rreq) ''rewrite'' (tone_str (rw_tone rreq))),
                           SETEX (cache_key_for_input (rw_text rreq) ''rewrite'' (tone_str (rw_tone rreq)))
                             (CACHE_TTL ev) r]
                \<and> store (snd (rewrite ev w rreq))
                      (cache_key_for_input (rw_text rreq) ''rewrite'' (tone_str (rw_tone rreq)))
                    = Some (r, clock w + CACHE_TTL ev)))"
proof (intro conjI impI allI)
  let ?k = "cache_key_for_input (sr_text sreq) ''summarize'' []"
  let ?c = "summarize_text ev w (PStr (sr_text sreq)) (py_opt_int (sr_max_length sreq))
               (py_opt_int (sr_min_length sreq))"
  assume "cache_lookup w ?k = Some []"
  then have m: "\<not> truthy (cache_lookup w ?k)" by simp
  from summarize_text_one_call obtain c where "pipe_log (snd ?c) = pipe_log w @ [c]" by blast
  then have "pipe_log (snd (summarize ev w sreq)) = pipe_log w @ [c]"
    by (cases ?c) (auto simp: summarize_miss [OF m] Let_def split: sum.splits)
  then show "\<exists>c. pipe_log (snd (summarize ev w sreq)) = pipe_log w @ [c]" by blast
  fix r
  assume "fst ?c = Inr r"
  then show "fst (summarize ev w sreq)
      = Inr \<lparr>resp_task = ''summarization'', resp_cached = False, resp_result = r\<rparr>"
    and "redis_log (snd (summarize ev w sreq)) = redis_log w @ [GET ?k, SETEX ?k (CACHE_TTL ev) r]"
    and "store (snd (summarize ev w sreq)) ?k = Some (r, clock w + CACHE_TTL ev)"
    by (cases ?c; simp add: summarize_miss [OF m] Let_def)+
next
  let ?k = "cache_key_for_input (qa_context qreq @ qa_question qreq) ''qa'' []"
  let ?c = "answer_question ev w (PStr (qa_context qreq)) (PStr (qa_question qreq))"
  assume "cache_lookup w ?k = Some []"
  then have m: "\<not> truthy (cache_lookup w ?k)" by simp
  from answer_question_one_call obtain c where "pipe_log (snd ?c) = pipe_log w @ [c]" by blast
  then have "pipe_log (snd (qa ev w qreq)) = pipe_log w @ [c]"
    by (cases ?c) (auto simp: qa_miss [OF m] Let_def split: sum.splits)
  then show "\<exists>c. pipe_log (snd (qa ev w qreq)) = pipe_log w @ [c]" by blast
  fix r
  assume "fst ?c = Inr r"
  then show "fst (qa ev w qreq) = Inr \<lparr>resp_task = ''qa'', resp_cached = False, resp_result = r\<rparr>"
    and "redis_log (snd (qa ev w qreq)) = redis_log w @ [GET ?k, SETEX ?k (CACHE_TTL ev) r]"
    and "store (snd (qa ev w qreq)) ?k = Some (r, clock w + CACHE_TTL ev)"
    by (cases ?c; simp add: qa_miss [OF m] Let_def)+
next
  let ?k = "cache_key_for_input (rw_text rreq) ''rewrite'' (tone_str (rw_tone rreq))"
  let ?c = "rewrite_tone ev w (PStr (rw_text rreq)) (PStr (tone_str (rw_tone rreq)))"
  assume "cache_lookup w ?k = Some []"
  then have m: "\<not> truthy (cache_lookup w ?k)" by simp
  from rewrite_tone_one_call obtain c where "pipe_log (snd ?c) = pipe_log w @ [c]" by blast
  then have "pipe_log (snd (rewrite ev w rreq)) = pipe_log w @ [c]"
    by (cases ?c) (auto simp: rewrite_miss [OF m] Let_def split: sum.splits)
  then show "\<exists>c. pipe_log (snd (rewrite ev w rreq)) = pipe_log w @ [c]" by blast
  fix r
  assume "fst ?c = Inr r"
  then show "fst (rewrite ev w rreq)
      = Inr \<lparr>resp_task = ''rewrite'', resp_cached = False, resp_result = r\<rparr>"
    and "redis_log (snd (rewrite ev w rreq)) = redis_log w @ [GET ?k, SETEX ?k (CACHE_TTL ev) r]"
    and "store (snd (rewrite ev w rreq)) ?k = Some (r, clock w + CACHE_TTL ev)"
    by (cases ?c; simp add: rewrite_miss [OF m] Let_def)+
qed

theorem empty_cached_value_is_a_miss_witness:
  "cache_lookup blank_world (cache_key_for_input ''x'' ''summarize'' []) = Some []
   \<and> fst (summarize_text (example_env (Inr ''s'')) blank_world (PStr ''x'') (PInt 150) (PInt 25))
        = Inr ''s''
   \<and> fst (summarize (example_env (Inr ''s'')) blank_world
            \<lparr>sr_text = ''x'', sr_max_length = Some 150, sr_min_length = Some 25\<rparr>)
        = Inr \<lparr>resp_task = ''summarization'', resp_cached = False, resp_result = ''s''\<rparr>
   \<and> cache_lookup blank_world (cache_key_for_input (''c'' @ ''q'') ''qa'' []) = Some []
   \<and> fst (answer_question (example_env (Inr ''s'')) blank_world (PStr ''c'') (PStr ''q''))
        = Inr ''s''
   \<and> fst (qa (example_env (Inr ''s'')) blank_world \<lparr>qa_context = ''c'', qa_question = ''q''\<rparr>)
        = Inr \<lparr>resp_task = ''qa'', resp_cached = False, resp_result = ''s''\<rparr>
   \<and> cache_lookup blank_world (cache_key_for_input ''x'' ''rewrite'' ''formal'') = Some []
   \<and> fst (rewrite_tone (example_env (Inr ''s'')) blank_world (PStr ''x'') (PStr ''formal''))
        = Inr ''s''
   \<and> fst (rewrite (example_env (Inr ''s'')) blank_world \<lparr>rw_text = ''x'', rw_tone = formal\<rparr>)
        = Inr \<lparr>resp_task = ''rewrite'', resp_cached = False, resp_result = ''s''\<rparr>"
proof -
  let ?ev = "example_env (Inr ''s'')"
  have c: "fst (summarize_text ?ev blank_world (PStr ''x'') (PInt 150) (PInt 25)) = Inr ''s''"
    "fst (answer_question ?ev blank_world (PStr ''c'') (PStr ''q'')) = Inr ''s''"
    "fst (rewrite_tone ?ev blank_world (PStr ''x'') (PStr ''formal'')) = Inr ''s''"
    by (simp_all add: eval_defs blank_world_def strip_def ws1_def)
  from blank_lookup c
    empty_cached_value_is_a_miss [where w = blank_world and ev = ?ev
      and sreq = "\<lparr>sr_text = ''x'', sr_max_length = Some 150, sr_min_length = Some 25\<rparr>"
      and qreq = "\<lparr>qa_context = ''c'', qa_question = ''q''\<rparr>"
      and rreq = "\<lparr>rw_text = ''x'', rw_tone = formal\<rparr>"]
  show ?thesis by simp
qed

section \<open>Further properties\<close>

text \<open>
  What does hold of repeated requests: after a miss whose inference call returned a
  non-empty result, the same request is answered from the cache, with that result, in
  every later world that still holds the entry and in which it has not expired; the
  handler then only sends a GET.
\<close>

theorem cache_hit_for_nonempty_result:
  "(\<not> truthy (cache_lookup w (cache_key_for_input (sr_text sreq) ''summarize'' []))
      \<and> fst (summarize_text ev w (PStr (sr_text sreq)) (py_opt_int (sr_max_length sreq))
               (py_opt_int (sr_min_length sreq))) = Inr r1
      \<and> r1 \<noteq> []
      \<and> store w2 (cache_key_for_input (sr_text sreq) ''summarize'' [])
          = store (snd (summarize ev w sreq)) (cache_key_for_input (sr_text sreq) ''summarize'' [])
      \<and> clock w2 < clock w + CACHE_TTL ev
    \<longrightarrow> fst (summarize ev w sreq)
          = Inr \<lparr>resp_task = ''summarization'', resp_cached = False, resp_result = r1\<rparr>
      \<and> summarize ev w2 sreq
          = (Inr \<lparr>resp_task = ''summarization'', resp_cached = True, resp_result = r1\<rparr>,
             w2\<lparr>redis_log := redis_log w2
                  @ [GET (cache_key_for_input (sr_text sreq) ''summarize'' [])]\<rparr>))
   \<and> (\<not> truthy (cache_lookup w (cache_key_for_input (qa_context qreq @ qa_question qreq) ''qa'' []))
      \<and> fst (answer_question ev w (PStr (qa_context qreq)) (PStr (qa_question qreq))) = Inr r2
      \<and> r2 \<noteq> []
      \<and> store w2 (cache_key_for_input (qa_context qreq @ qa_question qreq) ''qa'' [])
          = store (snd (qa ev w qreq))
              (cache_key_for_input (qa_context qreq @ qa_question qreq) ''qa'' [])
      \<and> clock w2 < clock w + CACHE_TTL ev
    \<longrightarrow> fst (qa ev w qreq) = Inr \<lparr>resp_task = ''qa'', resp_cached = False, resp_result = r2\<rparr>
      \<and> qa ev w2 qreq
          = (Inr \<lparr>resp_task = ''qa'', resp_cached = True, resp_result = r2\<rparr>,
             w2\<lparr>redis_log := redis_log w2
                  @ [GET (cache_key_for_input (qa_context qreq @ qa_question qreq) ''qa'' [])]\<rparr>))
   \<and> (\<not> truthy (cache_lookup w
          (cache_key_for_input (rw_text rreq) ''rewrite'' (tone_str (rw_tone rreq))))
      \<and> fst (rewrite_tone ev w (PStr (rw_text rreq)) (PStr (tone_str (rw_tone rreq)))) = Inr r3
      \<and> r3 \<noteq> []
      \<and> store w2 (cache_key_for_input (rw_text rreq) ''rewrite'' (tone_str (rw_tone rreq)))
          = store (snd (rewrite ev w rreq))
              (cache_key_for_input (rw_text rreq) ''rewrite'' (tone_str (rw_tone rreq)))
      \<and> clock w2 < clock w + CACHE_TTL ev
    \<longrightarrow> fst (rewrite ev w rreq)
          = Inr \<lparr>resp_task = ''rewrite'', resp_cached = False, resp_result = r3\<rparr>
      \<and> rewrite ev w2 rreq
          = (Inr \<lparr>resp_task = ''rewrite'', resp_cached = True, resp_result = r3\<rparr>,
             w2\<lparr>redis_log := redis_log w2
                  @ [GET (cache_key_for_input (rw_text rreq) ''rewrite'' (tone_str (rw_tone rreq)))]\<rparr>))"
proof (intro conjI impI)
  let ?k = "cache_key_for_input (sr_text sreq) ''summarize'' []"
  let ?c = "summarize_text ev w (PStr (sr_text sreq)) (py_opt_int (sr_max_length sreq))
               (py_opt_int (sr_min_length sreq))"
  assume h: "\<not> truthy (cache_lookup w ?k) \<and> fst ?c = Inr r1 \<and> r1 \<noteq> []
      \<and> store w2 ?k = store (snd (summarize ev w sreq)) ?k \<and> clock w2 < clock w + CACHE_TTL ev"
  then have m: "\<not> truthy (cache_lookup w ?k)" by simp
  from h show f: "fst (summarize ev w sreq)
      = Inr \<lparr>resp_task = ''summarization'', resp_cached = False, resp_result = r1\<rparr>"
    by (cases ?c) (simp add: summarize_miss [OF m] Let_def)
  from h have "store (snd (summarize ev w sreq)) ?k = Some (r1, clock w + CACHE_TTL ev)"
    by (cases ?c) (simp add: summarize_miss [OF m] Let_def)
  with h have "cache_lookup w2 ?k = Some r1"
    by (simp add: lookup_live)
  with h show "summarize ev w2 sreq
      = (Inr \<lparr>resp_task = ''summarization'', resp_cached = True, resp_result = r1\<rparr>,
         w2\<lparr>redis_log := redis_log w2 @ [GET ?k]\<rparr>)"
    by (simp add: summarize_hit)
next
  let ?k = "cache_key_for_input (qa_context qreq @ qa_question qreq) ''qa'' []"
  let ?c = "answer_question ev w (PStr (qa_context qreq)) (PStr (qa_question qreq))"
  assume h: "\<not> truthy (cache_lookup w ?k) \<and> fst ?c = Inr r2 \<and> r2 \<noteq> []
      \<and> store w2 ?k = store (snd (qa ev w qreq)) ?k \<and> clock w2 < clock w + CACHE_TTL ev"
  then have m: "\<not> truthy (cache_lookup w ?k)" by simp
  from h show f: "fst (qa ev w qreq)
      = Inr \<lparr>resp_task = ''qa'', resp_cached = False, resp_result = r2\<rparr>"
    by (cases ?c) (simp add: qa_miss [OF m] Let_def)
  from h have "store (snd (qa ev w qreq)) ?k = Some (r2, clock w + CACHE_TTL ev)"
    by (cases ?c) (simp add: qa_miss [OF m] Let_def)
  with h have "cache_lookup w2 ?k = Some r2"
    by (simp add: lookup_live)
  with h show "qa ev w2 qreq
      = (Inr \<lparr>resp_task = ''qa'', resp_cached = True, resp_result = r2\<rparr>,
         w2\<lparr>redis_log := redis_log w2 @ [GET ?k]\<rparr>)"
    by (simp add: qa_hit)
next
  let ?k = "cache_key_for_input (rw_text rreq) ''rewrite'' (tone_str (rw_tone rreq))"
  let ?c = "rewrite_tone ev w (PStr (rw_text rreq)) (PStr (tone_str (rw_tone rreq)))"
  assume h: "\<not> truthy (cache_lookup w ?k) \<and> fst ?c = Inr r3 \<and> r3 \<noteq> []
      \<and> store w2 ?k = store (snd (rewrite ev w rreq)) ?k \<and> clock w2 < clock w + CACHE_TTL ev"
  then have m: "\<not> truthy (cache_lookup w ?k)" by simp
  from h show f: "fst (rewrite ev w rreq)
      = Inr \<lparr>resp_task = ''rewrite'', resp_cached = False, resp_result = r3\<rparr>"
    by (cases ?c) (simp add: rewrite_miss [OF m] Let_def)
  from h have "store (snd (rewrite ev w rreq)) ?k = Some (r3, clock w + CACHE_TTL ev)"
    by (cases ?c) (simp add: rewrite_miss [OF m] Let_def)
  with h have "cache_lookup w2 ?k = Some r3"
    by (simp add: lookup_live)
  with h show "rewrite ev w2 rreq
      = (Inr \<lparr>resp_task = ''rewrite'', resp_cached = True, resp_result = r3\<rparr>,
         w2\<lparr>redis_log := redis_log w2 @ [GET ?k]\<rparr>)"
    by (simp add: rewrite_hit)
qed

theorem cache_hit_for_nonempty_result_witness:
  "fst (summarize (example_env (Inr ''s'')) empty_world
          \<lparr>sr_text = ''x'', sr_max_length = Some 150, sr_min_length = Some 25\<rparr>)
      = Inr \<lparr>resp_task = ''summarization'', resp_cached = False, resp_result = ''s''\<rparr>
   \<and> fst (summarize (example_env (Inr ''s''))
          (advance 10 (snd (summarize (example_env (Inr ''s'')) empty_world
             \<lparr>sr_text = ''x'', sr_max_length = Some 150, sr_min_length = Some 25\<rparr>)))
          \<lparr>sr_text = ''x'', sr_max_length = Some 150, sr_min_length = Some 25\<rparr>)
      = Inr \<lparr>resp_task = ''summarization'', resp_cached = True, resp_result = ''s''\<rparr>
   \<and> fst (qa (example_env (Inr ''s''))
          (advance 10 (snd (qa (example_env (Inr ''s'')) empty_world
             \<lparr>qa_context = ''c'', qa_question = ''q''\<rparr>)))
          \<lparr>qa_context = ''c'', qa_question = ''q''\<rparr>)
      = Inr \<lparr>resp_task = ''qa'', resp_cached = True, resp_result = ''s''\<rparr>
   \<and> fst (rewrite (example_env (Inr ''s''))
          (advance 10 (snd (rewrite (example_env (Inr ''s'')) empty_world
             \<lparr>rw_text = ''x'', rw_tone = formal\<rparr>)))
          \<lparr>rw_text = ''x'', rw_tone = formal\<rparr>)
      = Inr \<lparr>resp_task = ''rewrite'', resp_cached = True, resp_result = ''s''\<rparr>"
proof -
  let ?ev = "example_env (Inr ''s'')"
  let ?sreq = "\<lparr>sr_text = ''x'', sr_max_length = Some 150, sr_min_length = Some 25\<rparr>"
  let ?qreq = "\<lparr>qa_context = ''c'', qa_question = ''q''\<rparr>"
  let ?rreq = "\<lparr>rw_text = ''x'', rw_tone = formal\<rparr>"
  have m: "\<not> truthy (cache_lookup empty_world (cache_key_for_input ''x'' ''summarize'' []))"
    "fst (summarize_text ?ev empty_world (PStr ''x'') (PInt 150) (PInt 25)) = Inr ''s''"
    "\<not> truthy (cache_lookup empty_world (cache_key_for_input (''c'' @ ''q'') ''qa'' []))"
    "fst (answer_question ?ev empty_world (PStr ''c'') (PStr ''q'')) = Inr ''s''"
    "\<not> truthy (cache_lookup empty_world (cache_key_for_input ''x'' ''rewrite'' ''formal''))"
    "fst (rewrite_tone ?ev empty_world (PStr ''x'') (PStr ''formal'')) = Inr ''s''"
    by (simp_all add: eval_defs strip_def ws1_def)
  have t: "clock (advance 10 w) < clock empty_world + CACHE_TTL ?ev \<longleftrightarrow> clock w < 86390"
    "store (advance 10 w) = store w" for w
    by (simp_all add: advance_def empty_world_def example_env_def)
  have c: "clock (snd (summarize ?ev empty_world ?sreq)) = 0"
    "clock (snd (qa ?ev empty_world ?qreq)) = 0"
    "clock (snd (rewrite ?ev empty_world ?rreq)) = 0"
    by (simp_all add: summarize_def qa_def rewrite_def redis_get_def redis_setex_def Let_def
        eval_defs strip_def ws1_def)
  from m t c
    cache_hit_for_nonempty_result [where w = empty_world and ev = ?ev and sreq = ?sreq
      and ?r1.0 = "''s''" and ?w2.0 = "advance 10 (snd (summarize ?ev empty_world ?sreq))"]
  have s: "fst (summarize ?ev empty_world ?sreq)
      = Inr \<lparr>resp_task = ''summarization'', resp_cached = False, resp_result = ''s''\<rparr>"
    "fst (summarize ?ev (advance 10 (snd (summarize ?ev empty_world ?sreq))) ?sreq)
      = Inr \<lparr>resp_task = ''summarization'', resp_cached = True, resp_result = ''s''\<rparr>"
    by simp_all
  from m t c
    cache_hit_for_nonempty_result [where w = empty_world and ev = ?ev and qreq = ?qreq
      and ?r2.0 = "''s''" and ?w2.0 = "advance 10 (snd (qa ?ev empty_world ?qreq))"]
  have q: "fst (qa ?ev (advance 10 (snd (qa ?ev empty_world ?qreq))) ?qreq)
      = Inr \<lparr>resp_task = ''qa'', resp_cached = True, resp_result = ''s''\<rparr>"
    by simp
  from m t c
    cache_hit_for_nonempty_result [where w = empty_world and ev = ?ev and rreq = ?rreq
      and ?r3.0 = "''s''" and ?w2.0 = "advance 10 (snd (rewrite ?ev empty_world ?rreq))"]
  have r: "fst (rewrite ?ev (advance 10 (snd (rewrite ?ev empty_world ?rreq))) ?rreq)
      = Inr \<lparr>resp_task = ''rewrite'', resp_cached = True, resp_result = ''s''\<rparr>"
    by simp
  from s q r show ?thesis by simp
qed

text \<open>
  The frame condition that does hold, with a hit taken as the handler's own test (the
  value read is present and not empty). On a hit the handler sends the GET and nothing
  else, and the store is unchanged. Otherwise, when the inference call succeeds, it sends
  the GET and exactly one SETEX, of the fresh result under the computed key with
  \<open>CACHE_TTL\<close>, and the store changes at that key only. Stated for
  \<open>summarize\<close>, \<open>qa\<close> and \<open>rewrite\<close>.
\<close>

theorem cache_write_frame:
  "(truthy (cache_lookup w (cache_key_for_input (sr_text sreq) ''summarize'' []))
      \<longrightarrow> store (snd (summarize ev w sreq)) = store w
        \<and> redis_log (snd (summarize ev w sreq))
            = redis_log w @ [GET (cache_key_for_input (sr_text sreq) ''summarize'' [])])
   \<and> (\<not> truthy (cache_lookup w (cache_key_for_input (sr_text sreq) ''summarize'' []))
        \<and> fst (summarize_text ev w (PStr (sr_text sreq)) (py_opt_int (sr_max_length sreq))
                 (py_opt_int (sr_min_length sreq))) = Inr r1
      \<longrightarrow> redis_log (snd (summarize ev w sreq))
            = redis_log w @ [GET (cache_key_for_input (sr_text sreq) ''summarize'' []),
                SETEX (cache_key_for_input (sr_text sreq) ''summarize'' []) (CACHE_TTL ev) r1]
        \<and> store (snd (summarize ev w sreq))
            = (store w)(cache_key_for_input (sr_text sreq) ''summarize'' []
                 \<mapsto> (r1, clock w + CACHE_TTL ev))
        \<and> (\<forall>k. k \<noteq> cache_key_for_input (sr_text sreq) ''summarize'' []
              \<longrightarrow> store (snd (summarize ev w sreq)) k = store w k))
   \<and> (truthy (cache_lookup w (cache_key_for_input (qa_context qreq @ qa_question qreq) ''qa'' []))
      \<longrightarrow> store (snd (qa ev w qreq)) = store w
        \<and> redis_log (snd (qa ev w qreq))
            = redis_log w @ [GET (cache_key_for_input (qa_context qreq @ qa_question qreq) ''qa'' [])])
   \<and> (\<not> truthy (cache_lookup w (cache_key_for_input (qa_context qreq @ qa_question qreq) ''qa'' []))
        \<and> fst (answer_question ev w (PStr (qa_context qreq)) (PStr (qa_question qreq))) = Inr r2
      \<longrightarrow> redis_log (snd (qa ev w qreq))
            = redis_log w @ [GET (cache_key_for_input (qa_context qreq @ qa_question qreq) ''qa'' []),
                SETEX (cache_key_for_input (qa_context qreq @ qa_question qreq) ''qa'' [])
                  (CACHE_TTL ev) r2]
        \<and> store (snd (qa ev w qreq))
            = (store w)(cache_key_for_input (qa_context qreq @ qa_question qreq) ''qa'' []
                 \<mapsto> (r2, clock w + CACHE_TTL ev))
        \<and> (\<forall>k. k \<noteq> cache_key_for_input (qa_context qreq @ qa_question qreq) ''qa'' []
              \<longrightarrow> store (snd (qa ev w qreq)) k = store w k))
   \<and> (truthy (cache_lookup w
          (cache_key_for_input (rw_text rreq) ''rewrite'' (tone_str (rw_tone rreq))))
      \<longrightarrow> store (snd (rewrite ev w rreq)) = store w
        \<and> redis_log (snd (rewrite ev w rreq))
            = redis_log w
                @ [GET (cache_key_for_input (rw_text rreq) ''rewrite'' (tone_str (rw_tone rreq)))])
   \<and> (\<not> truthy (cache_lookup w
          (cache_key_for_input (rw_text rreq) ''rewrite'' (tone_str (rw_tone rreq))))
        \<and> fst (rewrite_tone ev w (PStr (rw_text rreq)) (PStr (tone_str (rw_tone rreq)))) = Inr r3
      \<longrightarrow> redis_log (snd (rewrite ev w rreq))
            = redis_log w
                @ [GET (cache_key_for_input (rw_text rreq) ''rewrite'' (tone_str (rw_tone rreq))),
                   SETEX (cache_key_for_input (rw_text rreq) ''rewrite'' (tone_str (rw_tone rreq)))
                     (CACHE_TTL ev) r3]
        \<and> store (snd (rewrite ev w rreq))
            = (store w)(cache_key_for_input (rw_text rreq) ''rewrite'' (tone_str (rw_tone rreq))
                 \<mapsto> (r3, clock w + CACHE_TTL ev))
        \<and> (\<forall>k. k \<noteq> cache_key_for_input (rw_text rreq) ''rewrite'' (tone_str (rw_tone rreq))
              \<longrightarrow> store (snd (rewrite ev w rreq)) k = store w k))"
proof (intro conjI impI)
  let ?k = "cache_key_for_input (sr_text sreq) ''summarize'' []"
  assume "truthy (cache_lookup w ?k)"
  then obtain v where v: "cache_lookup w ?k = Some v" "v \<noteq> []"
    by (cases "cache_lookup w ?k") auto
  show "store (snd (summarize ev w sreq)) = store w"
    and "redis_log (snd (summarize ev w sreq)) = redis_log w @ [GET ?k]"
    by (simp_all add: summarize_hit [OF v])
next
  let ?k = "cache_key_for_input (sr_text sreq) ''summarize'' []"
  let ?c = "summarize_text ev w (PStr (sr_text sreq)) (py_opt_int (sr_max_length sreq))
               (py_opt_int (sr_min_length sreq))"
  assume h: "\<not> truthy (cache_lookup w ?k) \<and> fst ?c = Inr r1"
  then have m: "\<not> truthy (cache_lookup w ?k)" by simp
  from h have r: "snd (summarize ev w sreq)
      = (snd ?c)\<lparr>store := (store w)(?k \<mapsto> (r1, clock w + CACHE_TTL ev)),
                 redis_log := redis_log w @ [GET ?k, SETEX ?k (CACHE_TTL ev) r1]\<rparr>"
    by (cases ?c) (simp add: summarize_miss [OF m] Let_def)
  show "redis_log (snd (summarize ev w sreq)) = redis_log w @ [GET ?k, SETEX ?k (CACHE_TTL ev) r1]"
    and "store (snd (summarize ev w sreq)) = (store w)(?k \<mapsto> (r1, clock w + CACHE_TTL ev))"
    and "\<forall>k. k \<noteq> ?k \<longrightarrow> store (snd (summarize ev w sreq)) k = store w k"
    by (simp_all add: r)
next
  let ?k = "cache_key_for_input (qa_context qreq @ qa_question qreq) ''qa'' []"
  assume "truthy (cache_lookup w ?k)"
  then obtain v where v: "cache_lookup w ?k = Some v" "v \<noteq> []"
    by (cases "cache_lookup w ?k") auto
  show "store (snd (qa ev w qreq)) = store w"
    and "redis_log (snd (qa ev w qreq)) = redis_log w @ [GET ?k]"
    by (simp_all add: qa_hit [OF v])
next
  let ?k = "cache_key_for_input (qa_context qreq @ qa_question qreq) ''qa'' []"
  let ?c = "answer_question ev w (PStr (qa_context qreq)) (PStr (qa_question qreq))"
  assume h: "\<not> truthy (cache_lookup w ?k) \<and> fst ?c = Inr r2"
  then have m: "\<not> truthy (cache_lookup w ?k)" by simp
  from h have r: "snd (qa ev w qreq)
      = (snd ?c)\<lparr>store := (store w)(?k \<mapsto> (r2, clock w + CACHE_TTL ev)),
                 redis_log := redis_log w @ [GET ?k, SETEX ?k (CACHE_TTL ev) r2]\<rparr>"
    by (cases ?c) (simp add: qa_miss [OF m] Let_def)
  show "redis_log (snd (qa ev w qreq)) = redis_log w @ [GET ?k, SETEX ?k (CACHE_TTL ev) r2]"
    and "store (snd (qa ev w qreq)) = (store w)(?k \<mapsto> (r2, clock w + CACHE_TTL ev))"
    and "\<forall>k. k \<noteq> ?k \<longrightarrow> store (snd (qa ev w qreq)) k = store w k"
    by (simp_all add: r)
next
  let ?k = "cache_key_for_input (rw_text rreq) ''rewrite'' (tone_str (rw_tone rreq))"
  assume "truthy (cache_lookup w ?k)"
  then obtain v where v: "cache_lookup w ?k = Some v" "v \<noteq> []"
    by (cases "cache_lookup w ?k") auto
  show "store (snd (rewrite ev w rreq)) = store w"
    and "redis_log (snd (rewrite ev w rreq)) = redis_log w @ [GET ?k]"
    by (simp_all add: rewrite_hit [OF v])
next
  let ?k = "cache_key_for_input (rw_text rreq) ''rewrite'' (tone_str (rw_tone rreq))"
  let ?c = "rewrite_tone ev w (PStr (rw_text rreq)) (PStr (tone_str (rw_tone rreq)))"
  assume h: "\<not> truthy (cache_lookup w ?k) \<and> fst ?c = Inr r3"
  then have m: "\<not> truthy (cache_lookup w ?k)" by simp
  from h have r: "snd (rewrite ev w rreq)
      = (snd ?c)\<lparr>store := (store w)(?k \<mapsto> (r3, clock w + CACHE_TTL ev)),
                 redis_log := redis_log w @ [GET ?k, SETEX ?k (CACHE_TTL ev) r3]\<rparr>"
    by (cases ?c) (simp add: rewrite_miss [OF m] Let_def)
  show "redis_log (snd (rewrite ev w rreq)) = redis_log w @ [GET ?k, SETEX ?k (CACHE_TTL ev) r3]"
    and "store (snd (rewrite ev w rreq)) = (store w)(?k \<mapsto> (r3, clock w + CACHE_TTL ev))"
    and "\<forall>k. k \<noteq> ?k \<longrightarrow> store (snd (rewrite ev w rreq)) k = store w k"
    by (simp_all add: r)
qed

theorem cache_write_frame_witness:
  "truthy (cache_lookup warm_world (cache_key_for_input ''x'' ''summarize'' []))
   \<and> store (snd (summarize (example_env (Inr ''s'')) warm_world
         \<lparr>sr_text = ''x'', sr_max_length = Some 150, sr_min_length = Some 25\<rparr>)) = store warm_world
   \<and> truthy (cache_lookup warm_world (cache_key_for_input (''c'' @ ''q'') ''qa'' []))
   \<and> store (snd (qa (example_env (Inr ''s'')) warm_world
         \<lparr>qa_context = ''c'', qa_question = ''q''\<rparr>)) = store warm_world
   \<and> truthy (cache_lookup warm_world (cache_key_for_input ''x'' ''rewrite'' ''formal''))
   \<and> store (snd (rewrite (example_env (Inr ''s'')) warm_world
         \<lparr>rw_text = ''x'', rw_tone = formal\<rparr>)) = store warm_world
   \<and> \<not> truthy (cache_lookup empty_world (cache_key_for_input ''x'' ''summarize'' []))
   \<and> fst (summarize_text (example_env (Inr ''s'')) empty_world (PStr ''x'') (PInt 150) (PInt 25))
        = Inr ''s''
   \<and> redis_log (snd (summarize (example_env (Inr ''s'')) empty_world
         \<lparr>sr_text = ''x'', sr_max_length = Some 150, sr_min_length = Some 25\<rparr>))
        = [GET (cache_key_for_input ''x'' ''summarize'' []),
           SETEX (cache_key_for_input ''x'' ''summarize'' []) 86400 ''s'']
   \<and> \<not> truthy (cache_lookup empty_world (cache_key_for_input (''c'' @ ''q'') ''qa'' []))
   \<and> fst (answer_question (example_env (Inr ''s'')) empty_world (PStr ''c'') (PStr ''q''))
        = Inr ''s''
   \<and> redis_log (snd (qa (example_env (Inr ''s'')) empty_world
         \<lparr>qa_context = ''c'', qa_question = ''q''\<rparr>))
        = [GET (cache_key_for_input (''c'' @ ''q'') ''qa'' []),
           SETEX (cache_key_for_input (''c'' @ ''q'') ''qa'' []) 86400 ''s'']
   \<and> \<not> truthy (cache_lookup empty_world (cache_key_for_input ''x'' ''rewrite'' ''formal''))
   \<and> fst (rewrite_tone (example_env (Inr ''s'')) empty_world (PStr ''x'') (PStr ''formal''))
        = Inr ''s''
   \<and> redis_log (snd (rewrite (example_env (Inr ''s'')) empty_world
         \<lparr>rw_text = ''x'', rw_tone = formal\<rparr>))
        = [GET (cache_key_for_input ''x'' ''rewrite'' ''formal''),
           SETEX (cache_key_for_input ''x'' ''rewrite'' ''formal'') 86400 ''s'']"
proof -
  let ?ev = "example_env (Inr ''s'')"
  let ?sreq = "\<lparr>sr_text = ''x'', sr_max_length = Some 150, sr_min_length = Some 25\<rparr>"
  let ?qreq = "\<lparr>qa_context = ''c'', qa_question = ''q''\<rparr>"
  let ?rreq = "\<lparr>rw_text = ''x'', rw_tone = formal\<rparr>"
  have m: "\<not> truthy (cache_lookup empty_world (cache_key_for_input ''x'' ''summarize'' []))"
    "fst (summarize_text ?ev empty_world (PStr ''x'') (PInt 150) (PInt 25)) = Inr ''s''"
    "\<not> truthy (cache_lookup empty_world (cache_key_for_input (''c'' @ ''q'') ''qa'' []))"
    "fst (answer_question ?ev empty_world (PStr ''c'') (PStr ''q'')) = Inr ''s''"
    "\<not> truthy (cache_lookup empty_world (cache_key_for_input ''x'' ''rewrite'' ''formal''))"
    "fst (rewrite_tone ?ev empty_world (PStr ''x'') (PStr ''formal'')) = Inr ''s''"
    by (simp_all add: eval_defs strip_def ws1_def)
  have e: "redis_log empty_world = []" "CACHE_TTL ?ev = 86400"
    by (simp_all add: empty_world_def example_env_def)
  from warm_lookup
    cache_write_frame [where w = warm_world and ev = ?ev and sreq = ?sreq and qreq = ?qreq
      and rreq = ?rreq]
  have hit: "store (snd (summarize ?ev warm_world ?sreq)) = store warm_world"
    "store (snd (qa ?ev warm_world ?qreq)) = store warm_world"
    "store (snd (rewrite ?ev warm_world ?rreq)) = store warm_world"
    by simp_all
  from m e
    cache_write_frame [where w = empty_world and ev = ?ev and sreq = ?sreq and qreq = ?qreq
      and rreq = ?rreq and ?r1.0 = "''s''" and ?r2.0 = "''s''" and ?r3.0 = "''s''"]
  have miss: "redis_log (snd (summarize ?ev empty_world ?sreq))
        = [GET (cache_key_for_input ''x'' ''summarize'' []),
           SETEX (cache_key_for_input ''x'' ''summarize'' []) 86400 ''s'']"
    "redis_log (snd (qa ?ev empty_world ?qreq))
        = [GET (cache_key_for_input (''c'' @ ''q'') ''qa'' []),
           SETEX (cache_key_for_input (''c'' @ ''q'') ''qa'' []) 86400 ''s'']"
    "redis_log (snd (rewrite ?ev empty_world ?rreq))
        = [GET (cache_key_for_input ''x'' ''rewrite'' ''formal''),
           SETEX (cache_key_for_input ''x'' ''rewrite'' ''formal'') 86400 ''s'']"
    by simp_all
  from warm_lookup m hit miss show ?thesis by simp
qed

text \<open>
  The key of \<open>/summarize\<close> is derived from the text alone: a request with the same
  text and other values of \<open>max_length\<close> and \<open>min_length\<close> is answered with the
  summary cached for the first, without a pipeline call.
\<close>

theorem summarize_cache_ignores_lengths:
  "sr_text r2 = sr_text r1
   \<and> cache_lookup w (cache_key_for_input (sr_text r1) ''summarize'' []) = Some v \<and> v \<noteq> []
   \<longrightarrow> fst (summarize ev w r2)
         = Inr \<lparr>resp_task = ''summarization'', resp_cached = True, resp_result = v\<rparr>
     \<and> pipe_log (snd (summarize ev w r2)) = pipe_log w"
proof
  assume h: "sr_text r2 = sr_text r1
   \<and> cache_lookup w (cache_key_for_input (sr_text r1) ''summarize'' []) = Some v \<and> v \<noteq> []"
  then have l: "cache_lookup w (cache_key_for_input (sr_text r2) ''summarize'' []) = Some v"
    and ne: "v \<noteq> []"
    by simp_all
  show "fst (summarize ev w r2)
         = Inr \<lparr>resp_task = ''summarization'', resp_cached = True, resp_result = v\<rparr>
     \<and> pipe_log (snd (summarize ev w r2)) = pipe_log w"
    by (simp add: summarize_hit [OF l ne])
qed

theorem summarize_cache_ignores_lengths_witness:
  "cache_lookup warm_world (cache_key_for_input ''x'' ''summarize'' []) = Some ''s''
   \<and> fst (summarize (example_env (Inr ''another summary'')) warm_world
          \<lparr>sr_text = ''x'', sr_max_length = Some 10, sr_min_length = Some 5\<rparr>)
       = Inr \<lparr>resp_task = ''summarization'', resp_cached = True, resp_result = ''s''\<rparr>"
proof -
  note l = warm_lookup(1)
  from l summarize_cache_ignores_lengths [where w = warm_world and v = "''s''"
      and ?r1.0 = "\<lparr>sr_text = ''x'', sr_max_length = Some 150, sr_min_length = Some 25\<rparr>"
      and ?r2.0 = "\<lparr>sr_text = ''x'', sr_max_length = Some 10, sr_min_length = Some 5\<rparr>"
      and ev = "example_env (Inr ''another summary'')"]
  show ?thesis by simp
qed

text \<open>
  \<open>job_status\<close> and \<open>job_result\<close> read the job RQ keeps and nothing else: the
  record \<open>job:<id>:status\<close> that \<open>submit_job\<close> writes, and its expiry, have no
  effect on what they return.
\<close>

theorem job_views_ignore_status_record:
  "job_status (w\<lparr>store := s, clock := c\<rparr>) jid = job_status w jid
   \<and> job_result (w\<lparr>store := s, clock := c\<rparr>) jid = job_result w jid"
  by (simp add: job_status_def job_result_def Job_fetch_def)

text \<open>
  What the worker's function raises before it reaches a pipeline: \<open>ValueError\<close> for a
  task type outside the three, \<open>KeyError\<close> for the first payload field that is
  missing.
\<close>

theorem worker_task_errors:
  "(task_type \<noteq> ''summarize'' \<and> task_type \<noteq> ''qa'' \<and> task_type \<noteq> ''rewrite''
      \<longrightarrow> process_genai_task ev w task_type payload
            = (Inl (ValueError (''Unknown task type: '' @ task_type)), w))
   \<and> (payload ''text'' = None
      \<longrightarrow> process_genai_task ev w ''summarize'' payload = (Inl (KeyError ''text''), w)
        \<and> process_genai_task ev w ''rewrite'' payload = (Inl (KeyError ''text''), w))
   \<and> (payload ''context'' = None
      \<longrightarrow> process_genai_task ev w ''qa'' payload = (Inl (KeyError ''context''), w))
   \<and> (payload ''text'' = Some t \<and> payload ''max_length'' = None
      \<longrightarrow> process_genai_task ev w ''summarize'' payload = (Inl (KeyError ''max_length''), w))"
  by (simp add: process_genai_task_def getitem_def)

theorem worker_task_errors_witness:
  "process_genai_task (example_env (Inr ''s'')) empty_world ''translate'' Map.empty
      = (Inl (ValueError ''Unknown task type: translate''), empty_world)
   \<and> process_genai_task (example_env (Inr ''s'')) empty_world ''qa'' Map.empty
      = (Inl (KeyError ''context''), empty_world)
   \<and> process_genai_task (example_env (Inr ''s'')) empty_world ''summarize'' [''text'' \<mapsto> PStr ''x'']
      = (Inl (KeyError ''max_length''), empty_world)
   \<and> process_genai_task (example_env (Inr ''s'')) empty_world ''rewrite'' Map.empty
      = (Inl (KeyError ''text''), empty_world)"
proof -
  from worker_task_errors [where task_type = "''translate''" and payload = Map.empty
      and ev = "example_env (Inr ''s'')" and w = empty_world]
  have a: "process_genai_task (example_env (Inr ''s'')) empty_world ''translate'' Map.empty
      = (Inl (ValueError ''Unknown task type: translate''), empty_world)"
    "process_genai_task (example_env (Inr ''s'')) empty_world ''qa'' Map.empty
      = (Inl (KeyError ''context''), empty_world)"
    "process_genai_task (example_env (Inr ''s'')) empty_world ''rewrite'' Map.empty
      = (Inl (KeyError ''text''), empty_world)"
    by simp_all
  from worker_task_errors [where payload = "[''text'' \<mapsto> PStr ''x'']" and t = "PStr ''x''"
      and ev = "example_env (Inr ''s'')" and w = empty_world]
  have b: "process_genai_task (example_env (Inr ''s'')) empty_world ''summarize''
        [''text'' \<mapsto> PStr ''x''] = (Inl (KeyError ''max_length''), empty_world)"
    by simp
  from a b show ?thesis by simp
qed

text \<open>
  Two contents get the same key, for the same task and modifier, exactly when their
  digests are equal: the key adds no collision of its own. The digests are those of
  SHA-256: the two test messages of the standard get their reference digests, and so
  different keys.
\<close>

theorem key_collision_is_digest_collision:
  "(cache_key_for_input c1 task extra = cache_key_for_input c2 task extra
      \<longleftrightarrow> sha256_text c1 = sha256_text c2)
   \<and> sha256_text [] = ''e3b0c44298fc1c149afbf4c8996fb92427ae41e4649b934ca495991b7852b855''
   \<and> sha256_text ''abc'' = ''ba7816bf8f01cfea414140de5dae2223b00361a396177a9cb410ff61f20015ad''
   \<and> cache_key_for_input [] ''summarize'' [] \<noteq> cache_key_for_input ''abc'' ''summarize'' []"
  by (simp add: cache_key_same_task sha256_text_empty sha256_text_abc)

end
